theory Spec2Isabelle
  imports Main "HOL-Library.Word"
begin

unbundle bit_operations_syntax

section \<open>Constants of \<^verbatim>\<open>dfusim/usbms.py\<close>\<close>

text \<open>
  A shallow embedding of the USB Mass Storage (Bulk-Only) function of
  \<^verbatim>\<open>src/dfusim/usbms.py\<close>. Fields of \<^verbatim>\<open>ctypes\<close> structures are machine words
  (\<^verbatim>\<open>u8\<close>, \<^verbatim>\<open>le16\<close> and \<^verbatim>\<open>le32\<close> of \<^verbatim>\<open>functionfs.common\<close> are the 8-, 16- and 32-bit
  unsigned \<^verbatim>\<open>ctypes\<close> integers; the byte order of a field is the one of the structure
  class that declares it). Arguments of Python functions are unbounded integers
  (\<^typ>\<open>int\<close>); storing one into a \<^verbatim>\<open>ctypes\<close> field keeps its low bits
  (\<^const>\<open>word_of_int\<close>), as \<^verbatim>\<open>ctypes\<close> does without a range check.
\<close>

type_synonym byte = "8 word"

definition USBMS_CBW_MAGIC :: int where "USBMS_CBW_MAGIC = 0x43425355"
definition USBMS_CSW_MAGIC :: int where "USBMS_CSW_MAGIC = 0x53425355"

definition USBMS_CBW_DIR_MASK :: byte where "USBMS_CBW_DIR_MASK = 0x80"
definition USBMS_CBW_DIR_IN :: byte where "USBMS_CBW_DIR_IN = 0x80"

definition USBMS_CSW_STATUS_GOOD :: int where "USBMS_CSW_STATUS_GOOD = 0x00"
definition USBMS_CSW_STATUS_BAD :: int where "USBMS_CSW_STATUS_BAD = 0x01"
definition USBMS_CSW_STATUS_PHASE_ERROR :: int where "USBMS_CSW_STATUS_PHASE_ERROR = 0x02"

definition SCSI_CMD_TEST_UNIT_READY :: byte where "SCSI_CMD_TEST_UNIT_READY = 0x00"
definition SCSI_CMD_REQUEST_SENSE :: byte where "SCSI_CMD_REQUEST_SENSE = 0x03"
definition SCSI_CMD_INQUIRY :: byte where "SCSI_CMD_INQUIRY = 0x12"
definition SCSI_CMD_MODE_SENSE6 :: byte where "SCSI_CMD_MODE_SENSE6 = 0x1a"
definition SCSI_CMD_START_STOP_UNIT :: byte where "SCSI_CMD_START_STOP_UNIT = 0x1b"
definition SCSI_CMD_PREVENT_ALLOW_MEDIUM_REMOVAL :: byte where
  "SCSI_CMD_PREVENT_ALLOW_MEDIUM_REMOVAL = 0x1e"
definition SCSI_CMD_READ_FORMAT_CAPACITY :: byte where "SCSI_CMD_READ_FORMAT_CAPACITY = 0x23"
definition SCSI_CMD_READ_CAPACITY10 :: byte where "SCSI_CMD_READ_CAPACITY10 = 0x25"
definition SCSI_CMD_READ10 :: byte where "SCSI_CMD_READ10 = 0x28"
definition SCSI_CMD_WRITE10 :: byte where "SCSI_CMD_WRITE10 = 0x2a"
definition SCSI_CMD_VERIFY10 :: byte where "SCSI_CMD_VERIFY10 = 0x2f"
definition SCSI_CMD_MODE_SENSE10 :: byte where "SCSI_CMD_MODE_SENSE10 = 0x5a"

definition SCSI_REQUEST_SENSE_F0_ERROR_CODE_MASK :: int where
  "SCSI_REQUEST_SENSE_F0_ERROR_CODE_MASK = 0x7f"
definition SCSI_ERROR_CODE_CURRENT :: int where "SCSI_ERROR_CODE_CURRENT = 0x70"
definition SCSI_REQUEST_SENSE_F2_SENSE_KEY_MASK :: int where
  "SCSI_REQUEST_SENSE_F2_SENSE_KEY_MASK = 0x0f"
definition SCSI_SENSE_KEY_NO_SENSE :: int where "SCSI_SENSE_KEY_NO_SENSE = 0x0"
definition SCSI_SENSE_KEY_NOT_READY :: int where "SCSI_SENSE_KEY_NOT_READY = 0x2"
definition SCSI_SENSE_KEY_ILLEGAL_REQUEST :: int where "SCSI_SENSE_KEY_ILLEGAL_REQUEST = 0x5"

definition SCSI_ASC_NONE :: int where "SCSI_ASC_NONE = 0x00"
definition SCSI_ASC_INVALID_FIELD_IN_CDB :: int where "SCSI_ASC_INVALID_FIELD_IN_CDB = 0x2400"

definition SCSI_INQUIRY_HEADER_F1_RMB :: int where "SCSI_INQUIRY_HEADER_F1_RMB = 0x80"
definition SCSI_INQUIRY_HEADER_FORMAT_SPC2 :: int where "SCSI_INQUIRY_HEADER_FORMAT_SPC2 = 0x02"
definition SCSI_INQUIRY_HEADER_VERSION_SPC2 :: int where "SCSI_INQUIRY_HEADER_VERSION_SPC2 = 0x4"
definition SCSI_INQUIRY_PERIF_QUALIFIER_LOADED :: int where
  "SCSI_INQUIRY_PERIF_QUALIFIER_LOADED = push_bit 5 0"
definition SCSI_INQUIRY_PERIF_TYPE_DIRECT :: int where "SCSI_INQUIRY_PERIF_TYPE_DIRECT = 0x00"

definition SCSI_VERIFY_F1_BYTCHK :: byte where "SCSI_VERIFY_F1_BYTCHK = 0x02"

section \<open>Byte order of structure fields\<close>

text \<open>
  Reading a 16- or 32-bit field of a \<^verbatim>\<open>BigEndianStructure\<close> concatenates its bytes most
  significant first; a \<^verbatim>\<open>LittleEndianStructure\<close> concatenates them in the reverse
  order. Writing a field stores the same bytes.
\<close>

definition get_be16 :: "byte \<Rightarrow> byte \<Rightarrow> 16 word" where
  "get_be16 b0 b1 = word_rcat [b0, b1]"

definition get_be32 :: "byte \<Rightarrow> byte \<Rightarrow> byte \<Rightarrow> byte \<Rightarrow> 32 word" where
  "get_be32 b0 b1 b2 b3 = word_rcat [b0, b1, b2, b3]"

definition get_le32 :: "byte \<Rightarrow> byte \<Rightarrow> byte \<Rightarrow> byte \<Rightarrow> 32 word" where
  "get_le32 b0 b1 b2 b3 = word_rcat (rev [b0, b1, b2, b3])"

definition put_be16 :: "16 word \<Rightarrow> byte list" where
  "put_be16 w = [ucast (drop_bit 8 w), ucast w]"

definition put_be32 :: "32 word \<Rightarrow> byte list" where
  "put_be32 w = [ucast (drop_bit 24 w), ucast (drop_bit 16 w), ucast (drop_bit 8 w), ucast w]"

definition put_le32 :: "32 word \<Rightarrow> byte list" where
  "put_le32 w = rev (put_be32 w)"



text \<open>The size of a packed structure (\<^verbatim>\<open>_pack_ = 1\<close>) is the sum of its field sizes.\<close>

definition sizeof :: "(string \<times> nat) list \<Rightarrow> nat" where
  "sizeof fields = sum_list (map snd fields)"

definition field_size :: "(string \<times> nat) list \<Rightarrow> string \<Rightarrow> nat" where
  "field_size fields name = (case map_of fields name of Some n \<Rightarrow> n | None \<Rightarrow> 0)"

section \<open>Exceptions\<close>

text \<open>The sense structures come first: a \<^verbatim>\<open>MassStorageError\<close> carries one.\<close>

record SCSIRequestSenseExt =
  command_specific_information :: "32 word"
  asc_ascq :: "16 word"
  field_replaceable_unit_code :: byte
  sense_key_specific_0 :: byte
  sense_key_specific_1 :: byte
  sense_key_specific_2 :: byte

definition SCSIRequestSenseExt_fields :: "(string \<times> nat) list" where
  "SCSIRequestSenseExt_fields =
     [(''command_specific_information'', 4), (''asc_ascq'', 2),
      (''field_replaceable_unit_code'', 1), (''sense_key_specific_0'', 1),
      (''sense_key_specific_1'', 1), (''sense_key_specific_2'', 1)]"

record SCSIRequestSenseHeader =
  field_0 :: byte
  obsolete :: byte
  field_2 :: byte
  information :: "32 word"
  additional_sense_length :: byte

definition SCSIRequestSenseHeader_fields :: "(string \<times> nat) list" where
  "SCSIRequestSenseHeader_fields =
     [(''field_0'', 1), (''_obsolete'', 1), (''field_2'', 1), (''information'', 4),
      (''additional_sense_length'', 1)]"

record SCSIResponseRequestSense =
  header :: SCSIRequestSenseHeader
  ext :: SCSIRequestSenseExt

definition SCSIResponseRequestSense_fields :: "(string \<times> nat) list" where
  "SCSIResponseRequestSense_fields =
     [(''header'', sizeof SCSIRequestSenseHeader_fields),
      (''ext'', sizeof SCSIRequestSenseExt_fields)]"

text \<open>A freshly constructed \<^verbatim>\<open>ctypes\<close> structure is all zero.\<close>

definition SCSIResponseRequestSense_new :: SCSIResponseRequestSense where
  "SCSIResponseRequestSense_new =
     \<lparr>header = \<lparr>field_0 = 0, obsolete = 0, field_2 = 0, information = 0,
                 additional_sense_length = 0\<rparr>,
      ext = \<lparr>command_specific_information = 0, asc_ascq = 0,
              field_replaceable_unit_code = 0, sense_key_specific_0 = 0,
              sense_key_specific_1 = 0, sense_key_specific_2 = 0\<rparr>\<rparr>"

definition error_code :: "SCSIResponseRequestSense \<Rightarrow> int" where
  "error_code r = uint (field_0 (header r)) AND SCSI_REQUEST_SENSE_F0_ERROR_CODE_MASK"

definition set_error_code :: "int \<Rightarrow> SCSIResponseRequestSense \<Rightarrow> SCSIResponseRequestSense" where
  "set_error_code val r =
     (let f0 = uint (field_0 (header r)) AND ((NOT SCSI_REQUEST_SENSE_F0_ERROR_CODE_MASK) AND 0xff);
          r1 = r\<lparr>header := (header r)\<lparr>field_0 := word_of_int f0\<rparr>\<rparr>;
          f0' = uint (field_0 (header r1)) OR (val AND SCSI_REQUEST_SENSE_F0_ERROR_CODE_MASK)
      in r1\<lparr>header := (header r1)\<lparr>field_0 := word_of_int f0'\<rparr>\<rparr>)"

definition sense_key :: "SCSIResponseRequestSense \<Rightarrow> int" where
  "sense_key r = uint (field_2 (header r)) AND SCSI_REQUEST_SENSE_F2_SENSE_KEY_MASK"

definition set_sense_key :: "int \<Rightarrow> SCSIResponseRequestSense \<Rightarrow> SCSIResponseRequestSense" where
  "set_sense_key val r =
     (let f2 = uint (field_2 (header r)) AND ((NOT SCSI_REQUEST_SENSE_F2_SENSE_KEY_MASK) AND 0xff);
          r1 = r\<lparr>header := (header r)\<lparr>field_2 := word_of_int f2\<rparr>\<rparr>;
          f2' = uint (field_2 (header r1)) OR (val AND SCSI_REQUEST_SENSE_F2_SENSE_KEY_MASK)
      in r1\<lparr>header := (header r1)\<lparr>field_2 := word_of_int f2'\<rparr>\<rparr>)"

definition SCSIResponseRequestSense_simple :: "int \<Rightarrow> int \<Rightarrow> SCSIResponseRequestSense" where
  "SCSIResponseRequestSense_simple key asc =
     (let result = SCSIResponseRequestSense_new;
          result = result\<lparr>header := (header result)
                     \<lparr>additional_sense_length := word_of_int (int (sizeof SCSIRequestSenseExt_fields))\<rparr>\<rparr>;
          result = set_error_code SCSI_ERROR_CODE_CURRENT result;
          result = set_sense_key key result;
          result = result\<lparr>ext := (ext result)\<lparr>asc_ascq := word_of_int asc\<rparr>\<rparr>
      in result)"

text \<open>
  \<^verbatim>\<open>MassStorageError(csw_status, sense)\<close> and the exceptions of the Python runtime that the
  code can meet. \<^verbatim>\<open>MassStoragePhaseError()\<close> is a \<^verbatim>\<open>MassStorageError\<close> with a phase-error
  status and no sense; the constructors of \<^verbatim>\<open>MassStorageIllegalRequestError\<close> and
  \<^verbatim>\<open>MassStorageNotReadyError\<close> raise a \<^verbatim>\<open>MassStorageError\<close> with a bad status and the
  matching sense.
\<close>

datatype exc =
    MassStorageError int "SCSIResponseRequestSense option"
  | ValueError
  | TypeError
  | IndexError
  | AttributeError
  | OverflowError
  | AssertionError
  | IOError int
  | OtherException string

definition MassStoragePhaseError :: exc where
  "MassStoragePhaseError = MassStorageError USBMS_CSW_STATUS_PHASE_ERROR None"

definition MassStorageIllegalRequestError :: "int \<Rightarrow> exc" where
  "MassStorageIllegalRequestError details =
     MassStorageError USBMS_CSW_STATUS_BAD
       (Some (SCSIResponseRequestSense_simple SCSI_SENSE_KEY_ILLEGAL_REQUEST details))"

definition MassStorageNotReadyError :: "int \<Rightarrow> exc" where
  "MassStorageNotReadyError details =
     MassStorageError USBMS_CSW_STATUS_BAD
       (Some (SCSIResponseRequestSense_simple SCSI_SENSE_KEY_NOT_READY details))"

section \<open>The command status wrapper\<close>

record CSW =
  dCSWSignature :: "32 word"
  dCSWTag :: "32 word"
  dCSWDataResidue :: "32 word"
  bCSWStatus :: byte

definition CSW_fields :: "(string \<times> nat) list" where
  "CSW_fields =
     [(''dCSWSignature'', 4), (''dCSWTag'', 4), (''dCSWDataResidue'', 4), (''bCSWStatus'', 1)]"

definition CSW_simple :: "int \<Rightarrow> int \<Rightarrow> int \<Rightarrow> CSW" where
  "CSW_simple tag status data_residue =
     \<lparr>dCSWSignature = word_of_int USBMS_CSW_MAGIC,
      dCSWTag = word_of_int tag,
      dCSWDataResidue = word_of_int data_residue,
      bCSWStatus = word_of_int status\<rparr>"

text \<open>The bytes of a CSW as \<^verbatim>\<open>inep.write\<close> sends them (a \<^verbatim>\<open>LittleEndianStructure\<close>).\<close>

definition bytes_of_CSW :: "CSW \<Rightarrow> byte list" where
  "bytes_of_CSW c =
     put_le32 (dCSWSignature c) @ put_le32 (dCSWTag c) @ put_le32 (dCSWDataResidue c)
       @ [bCSWStatus c]"

text \<open>\<^verbatim>\<open>CSW.from_buffer_copy\<close>: a buffer shorter than the structure is a \<^verbatim>\<open>ValueError\<close>.\<close>

definition CSW_from_buffer_copy :: "byte list \<Rightarrow> exc + CSW" where
  "CSW_from_buffer_copy bs =
     (if length bs < sizeof CSW_fields then Inl ValueError
      else Inr \<lparr>dCSWSignature = get_le32 (bs ! 0) (bs ! 1) (bs ! 2) (bs ! 3),
                dCSWTag = get_le32 (bs ! 4) (bs ! 5) (bs ! 6) (bs ! 7),
                dCSWDataResidue = get_le32 (bs ! 8) (bs ! 9) (bs ! 10) (bs ! 11),
                bCSWStatus = bs ! 12\<rparr>)"

section \<open>SCSI parameter blocks\<close>

text \<open>
  Each parameter block is a \<^verbatim>\<open>BigEndianStructure\<close> with \<^verbatim>\<open>_pack_ = 1\<close>. A field name that
  several structures share carries the structure's short name as a prefix here; the
  \<^verbatim>\<open>_fields_\<close> lists keep the names and sizes of the source.
\<close>

record SCSIParametersVoid6 =
  void6_reserved :: "byte list"
  void6_control :: byte

definition SCSIParametersVoid6_fields :: "(string \<times> nat) list" where
  "SCSIParametersVoid6_fields = [(''_reserved'', 4), (''control'', 1)]"

record SCSIParametersRequestSense =
  rs_flags :: byte
  rs_reserved :: "byte list"
  rs_allocation_length :: byte
  rs_control :: byte

definition SCSIParametersRequestSense_fields :: "(string \<times> nat) list" where
  "SCSIParametersRequestSense_fields =
     [(''flags'', 1), (''_reserved'', 2), (''allocation_length'', 1), (''control'', 1)]"

record SCSIParametersInquiry =
  inq_flags :: byte
  inq_page_code :: byte
  inq_allocation_length :: "16 word"
  inq_control :: byte

definition SCSIParametersInquiry_fields :: "(string \<times> nat) list" where
  "SCSIParametersInquiry_fields =
     [(''flags'', 1), (''page_code'', 1), (''allocation_length'', 2), (''control'', 1)]"

record SCSIParametersModeSense6 =
  ms6_flags :: byte
  ms6_page :: byte
  ms6_subpage_code :: byte
  ms6_allocation_length :: byte
  ms6_control :: byte

definition SCSIParametersModeSense6_fields :: "(string \<times> nat) list" where
  "SCSIParametersModeSense6_fields =
     [(''flags'', 1), (''page'', 1), (''subpage_code'', 1), (''allocation_length'', 1),
      (''control'', 1)]"

record SCSIParametersStartStopUnit =
  ssu_flags1 :: byte
  ssu_reserved :: "byte list"
  ssu_flags2 :: byte
  ssu_control :: byte

definition SCSIParametersStartStopUnit_fields :: "(string \<times> nat) list" where
  "SCSIParametersStartStopUnit_fields =
     [(''flags1'', 1), (''_reserved'', 2), (''flags2'', 1), (''control'', 1)]"

record SCSIParametersPreventAllowMediumRemoval =
  pamr_reserved :: "byte list"
  pamr_flags :: byte
  pamr_control :: byte

definition SCSIParametersPreventAllowMediumRemoval_fields :: "(string \<times> nat) list" where
  "SCSIParametersPreventAllowMediumRemoval_fields =
     [(''_reserved'', 3), (''flags'', 1), (''control'', 1)]"

record SCSIParametersReadCapacity10 =
  rc10_flags1 :: byte
  rc10_lba :: "32 word"
  rc10_reserved :: "byte list"
  rc10_flags2 :: byte
  rc10_control :: byte

definition SCSIParametersReadCapacity10_fields :: "(string \<times> nat) list" where
  "SCSIParametersReadCapacity10_fields =
     [(''flags1'', 1), (''lba'', 4), (''_reserved'', 2), (''flags2'', 1), (''control'', 1)]"

record SCSIParametersIO10 =
  io10_flags :: byte
  io10_lba :: "32 word"
  io10_group_number :: byte
  io10_transfer_length :: "16 word"
  io10_control :: byte

definition SCSIParametersIO10_fields :: "(string \<times> nat) list" where
  "SCSIParametersIO10_fields =
     [(''flags'', 1), (''lba'', 4), (''group_number'', 1), (''transfer_length'', 2),
      (''control'', 1)]"

record SCSIParametersVerify10 =
  vfy10_flags1 :: byte
  vfy10_lba :: "32 word"
  vfy10_flags2 :: byte
  vfy10_verification_length :: "16 word"
  vfy10_control :: byte

definition SCSIParametersVerify10_fields :: "(string \<times> nat) list" where
  "SCSIParametersVerify10_fields =
     [(''flags1'', 1), (''lba'', 4), (''flags2'', 1), (''verification_length'', 2),
      (''control'', 1)]"

record SCSIParametersModeSense10 =
  ms10_flags :: byte
  ms10_page :: byte
  ms10_reserved :: "byte list"
  ms10_allocation_length :: "16 word"
  ms10_control :: byte

definition SCSIParametersModeSense10_fields :: "(string \<times> nat) list" where
  "SCSIParametersModeSense10_fields =
     [(''flags'', 1), (''page'', 1), (''_reserved'', 4), (''allocation_length'', 2),
      (''control'', 1)]"

text \<open>
  The parameter classes that \<^verbatim>\<open>_PARSERS\<close> names, and an instance of one of them (what
  \<^verbatim>\<open>cast\<close> returns and \<^verbatim>\<open>isinstance\<close> tests).
\<close>

datatype params_class =
    ClassVoid6
  | ClassRequestSense
  | ClassInquiry
  | ClassModeSense6
  | ClassStartStopUnit
  | ClassPreventAllowMediumRemoval
  | ClassReadCapacity10
  | ClassIO10
  | ClassVerify10
  | ClassModeSense10

datatype params =
    Void6 SCSIParametersVoid6
  | RequestSense SCSIParametersRequestSense
  | Inquiry SCSIParametersInquiry
  | ModeSense6 SCSIParametersModeSense6
  | StartStopUnit SCSIParametersStartStopUnit
  | PreventAllowMediumRemoval SCSIParametersPreventAllowMediumRemoval
  | ReadCapacity10 SCSIParametersReadCapacity10
  | IO10 SCSIParametersIO10
  | Verify10 SCSIParametersVerify10
  | ModeSense10 SCSIParametersModeSense10

fun fields_of :: "params_class \<Rightarrow> (string \<times> nat) list" where
  "fields_of ClassVoid6 = SCSIParametersVoid6_fields"
| "fields_of ClassRequestSense = SCSIParametersRequestSense_fields"
| "fields_of ClassInquiry = SCSIParametersInquiry_fields"
| "fields_of ClassModeSense6 = SCSIParametersModeSense6_fields"
| "fields_of ClassStartStopUnit = SCSIParametersStartStopUnit_fields"
| "fields_of ClassPreventAllowMediumRemoval = SCSIParametersPreventAllowMediumRemoval_fields"
| "fields_of ClassReadCapacity10 = SCSIParametersReadCapacity10_fields"
| "fields_of ClassIO10 = SCSIParametersIO10_fields"
| "fields_of ClassVerify10 = SCSIParametersVerify10_fields"
| "fields_of ClassModeSense10 = SCSIParametersModeSense10_fields"

fun class_of :: "params \<Rightarrow> params_class" where
  "class_of (Void6 p) = ClassVoid6"
| "class_of (RequestSense p) = ClassRequestSense"
| "class_of (Inquiry p) = ClassInquiry"
| "class_of (ModeSense6 p) = ClassModeSense6"
| "class_of (StartStopUnit p) = ClassStartStopUnit"
| "class_of (PreventAllowMediumRemoval p) = ClassPreventAllowMediumRemoval"
| "class_of (ReadCapacity10 p) = ClassReadCapacity10"
| "class_of (IO10 p) = ClassIO10"
| "class_of (Verify10 p) = ClassVerify10"
| "class_of (ModeSense10 p) = ClassModeSense10"

definition sizeof_params :: "params \<Rightarrow> nat" where
  "sizeof_params p = sizeof (fields_of (class_of p))"

text \<open>
  Reading the fields of a parameter block out of a buffer \<open>b\<close>, each at the offset its
  predecessors leave it at.
\<close>

fun read_fields :: "params_class \<Rightarrow> byte list \<Rightarrow> params" where
  "read_fields ClassVoid6 b =
     Void6 \<lparr>void6_reserved = take 4 b, void6_control = b ! 4\<rparr>"
| "read_fields ClassRequestSense b =
     RequestSense \<lparr>rs_flags = b ! 0, rs_reserved = take 2 (drop 1 b),
       rs_allocation_length = b ! 3, rs_control = b ! 4\<rparr>"
| "read_fields ClassInquiry b =
     Inquiry \<lparr>inq_flags = b ! 0, inq_page_code = b ! 1,
       inq_allocation_length = get_be16 (b ! 2) (b ! 3), inq_control = b ! 4\<rparr>"
| "read_fields ClassModeSense6 b =
     ModeSense6 \<lparr>ms6_flags = b ! 0, ms6_page = b ! 1, ms6_subpage_code = b ! 2,
       ms6_allocation_length = b ! 3, ms6_control = b ! 4\<rparr>"
| "read_fields ClassStartStopUnit b =
     StartStopUnit \<lparr>ssu_flags1 = b ! 0, ssu_reserved = take 2 (drop 1 b),
       ssu_flags2 = b ! 3, ssu_control = b ! 4\<rparr>"
| "read_fields ClassPreventAllowMediumRemoval b =
     PreventAllowMediumRemoval \<lparr>pamr_reserved = take 3 b, pamr_flags = b ! 3,
       pamr_control = b ! 4\<rparr>"
| "read_fields ClassReadCapacity10 b =
     ReadCapacity10 \<lparr>rc10_flags1 = b ! 0,
       rc10_lba = get_be32 (b ! 1) (b ! 2) (b ! 3) (b ! 4),
       rc10_reserved = take 2 (drop 5 b), rc10_flags2 = b ! 7, rc10_control = b ! 8\<rparr>"
| "read_fields ClassIO10 b =
     IO10 \<lparr>io10_flags = b ! 0, io10_lba = get_be32 (b ! 1) (b ! 2) (b ! 3) (b ! 4),
       io10_group_number = b ! 5, io10_transfer_length = get_be16 (b ! 6) (b ! 7),
       io10_control = b ! 8\<rparr>"
| "read_fields ClassVerify10 b =
     Verify10 \<lparr>vfy10_flags1 = b ! 0, vfy10_lba = get_be32 (b ! 1) (b ! 2) (b ! 3) (b ! 4),
       vfy10_flags2 = b ! 5, vfy10_verification_length = get_be16 (b ! 6) (b ! 7),
       vfy10_control = b ! 8\<rparr>"
| "read_fields ClassModeSense10 b =
     ModeSense10 \<lparr>ms10_flags = b ! 0, ms10_page = b ! 1, ms10_reserved = take 4 (drop 2 b),
       ms10_allocation_length = get_be16 (b ! 6) (b ! 7), ms10_control = b ! 8\<rparr>"

text \<open>\<^verbatim>\<open>from_buffer\<close> raises \<^verbatim>\<open>ValueError\<close> on a buffer smaller than the structure.\<close>

definition from_buffer :: "params_class \<Rightarrow> byte list \<Rightarrow> exc + params" where
  "from_buffer cls b =
     (if length b < sizeof (fields_of cls) then Inl ValueError else Inr (read_fields cls b))"

section \<open>The SCSI command buffer and the command block wrapper\<close>

record SCSICommandBuffer =
  command :: byte
  parameters :: "byte list"

definition SCSICommandBuffer_fields :: "(string \<times> nat) list" where
  "SCSICommandBuffer_fields = [(''command'', 1), (''parameters'', 15)]"

definition PARSERS :: "(byte \<times> params_class) list" where
  "PARSERS =
     [(SCSI_CMD_TEST_UNIT_READY, ClassVoid6),
      (SCSI_CMD_REQUEST_SENSE, ClassRequestSense),
      (SCSI_CMD_INQUIRY, ClassInquiry),
      (SCSI_CMD_MODE_SENSE6, ClassModeSense6),
      (SCSI_CMD_START_STOP_UNIT, ClassStartStopUnit),
      (SCSI_CMD_PREVENT_ALLOW_MEDIUM_REMOVAL, ClassPreventAllowMediumRemoval),
      (SCSI_CMD_READ_CAPACITY10, ClassReadCapacity10),
      (SCSI_CMD_READ10, ClassIO10),
      (SCSI_CMD_WRITE10, ClassIO10),
      (SCSI_CMD_VERIFY10, ClassVerify10),
      (SCSI_CMD_MODE_SENSE10, ClassModeSense10)]"

text \<open>
  \<^verbatim>\<open>cdb_size\<close>, the length class of the opcode's byte range. No code of the repository
  sets the override attribute, so the property always computes the class.
\<close>

definition cdb_size :: "SCSICommandBuffer \<Rightarrow> nat" where
  "cdb_size cb =
     (if 0x00 \<le> command cb \<and> command cb \<le> 0x1f then 6
      else if 0x20 \<le> command cb \<and> command cb \<le> 0x5f then 10
      else if 0x80 \<le> command cb \<and> command cb \<le> 0x9f then 16
      else if 0xa0 \<le> command cb \<and> command cb \<le> 0xbf then 12
      else 0)"

definition parseable :: "SCSICommandBuffer \<Rightarrow> bool" where
  "parseable cb = (command cb \<in> fst ` set PARSERS)"

text \<open>\<^verbatim>\<open>cast()\<close>, called without a target class as \<^verbatim>\<open>onCommand\<close> does.\<close>

definition cast :: "SCSICommandBuffer \<Rightarrow> exc + params" where
  "cast cb =
     (case map_of PARSERS (command cb) of
        None \<Rightarrow> Inl TypeError
      | Some parser \<Rightarrow> from_buffer parser (parameters cb))"

record CBW =
  dCBWSignature :: "32 word"
  dCBWTag :: "32 word"
  dCBWDataTransferLength :: "32 word"
  bmCBWFlags :: byte
  bCBWLUN :: byte
  bCBWCBLength :: byte
  CBWCB :: SCSICommandBuffer

definition CBW_fields :: "(string \<times> nat) list" where
  "CBW_fields =
     [(''dCBWSignature'', 4), (''dCBWTag'', 4), (''dCBWDataTransferLength'', 4),
      (''bmCBWFlags'', 1), (''bCBWLUN'', 1), (''bCBWCBLength'', 1),
      (''CBWCB'', sizeof SCSICommandBuffer_fields)]"

text \<open>
  \<^verbatim>\<open>CBW.from_buffer(data)\<close>: \<^verbatim>\<open>data\<close> may be \<^verbatim>\<open>None\<close> (a \<^verbatim>\<open>TypeError\<close>) or shorter than
  the 31 bytes of the structure (a \<^verbatim>\<open>ValueError\<close>); a longer buffer is accepted and its
  first 31 bytes are read. \<^verbatim>\<open>CBW.from_buffer_copy\<close> reads the same fields from a copy.
\<close>

definition CBW_from_buffer :: "byte list option \<Rightarrow> exc + CBW" where
  "CBW_from_buffer data =
     (case data of
        None \<Rightarrow> Inl TypeError
      | Some b \<Rightarrow>
          if length b < sizeof CBW_fields then Inl ValueError
          else Inr \<lparr>dCBWSignature = get_le32 (b ! 0) (b ! 1) (b ! 2) (b ! 3),
                    dCBWTag = get_le32 (b ! 4) (b ! 5) (b ! 6) (b ! 7),
                    dCBWDataTransferLength = get_le32 (b ! 8) (b ! 9) (b ! 10) (b ! 11),
                    bmCBWFlags = b ! 12,
                    bCBWLUN = b ! 13,
                    bCBWCBLength = b ! 14,
                    CBWCB = \<lparr>command = b ! 15, parameters = take 15 (drop 16 b)\<rparr>\<rparr>)"

definition CBW_from_buffer_copy :: "byte list option \<Rightarrow> exc + CBW" where
  "CBW_from_buffer_copy data = CBW_from_buffer data"

section \<open>SCSI responses\<close>

record SCSIResponseInquiryHeader =
  peripheral_type :: byte
  field_1 :: byte
  version :: byte
  field_3 :: byte
  additional_length :: byte

definition SCSIResponseInquiryHeader_fields :: "(string \<times> nat) list" where
  "SCSIResponseInquiryHeader_fields =
     [(''peripheral_type'', 1), (''field_1'', 1), (''version'', 1), (''field_3'', 1),
      (''additional_length'', 1)]"

record SCSIResponseInquiryFeatures =
  features_field_0 :: byte
  features_flags :: "16 word"
  vendor_id :: "byte list"
  product_id :: "byte list"
  product_revision :: "byte list"

definition SCSIResponseInquiryFeatures_fields :: "(string \<times> nat) list" where
  "SCSIResponseInquiryFeatures_fields =
     [(''field_0'', 1), (''flags'', 2), (''vendor_id'', 8), (''product_id'', 16),
      (''product_revision'', 4)]"

record SCSIResponseInquiry =
  inquiry_header :: SCSIResponseInquiryHeader
  features :: SCSIResponseInquiryFeatures

definition SCSIResponseInquiry_fields :: "(string \<times> nat) list" where
  "SCSIResponseInquiry_fields =
     [(''header'', sizeof SCSIResponseInquiryHeader_fields),
      (''features'', sizeof SCSIResponseInquiryFeatures_fields)]"

text \<open>\<^verbatim>\<open>ctypes.memmove(dst, src, n)\<close> on a field: the first \<open>n\<close> bytes of \<open>dst\<close> become \<open>src\<close>'s.\<close>

definition memmove :: "byte list \<Rightarrow> byte list \<Rightarrow> nat \<Rightarrow> byte list" where
  "memmove dst src n = take n src @ drop n dst"

text \<open>A Python bytes literal of ASCII characters.\<close>

definition bytes_literal :: "string \<Rightarrow> byte list" where
  "bytes_literal s = map (\<lambda>c. of_nat (of_char c)) s"

definition SCSIResponseInquiry_simple ::
  "int \<Rightarrow> bool \<Rightarrow> byte list \<Rightarrow> byte list \<Rightarrow> byte list \<Rightarrow> exc + SCSIResponseInquiry" where
  "SCSIResponseInquiry_simple ptype is_removable vendor product revision =
     (if length vendor > field_size SCSIResponseInquiryFeatures_fields ''vendor_id''
        then Inl ValueError
      else if length product > field_size SCSIResponseInquiryFeatures_fields ''product_id''
        then Inl ValueError
      else if length revision > field_size SCSIResponseInquiryFeatures_fields ''product_revision''
        then Inl ValueError
      else
        (let result =
           \<lparr>inquiry_header =
              \<lparr>peripheral_type = word_of_int ptype,
               field_1 = word_of_int (if is_removable then SCSI_INQUIRY_HEADER_F1_RMB else 0),
               version = word_of_int SCSI_INQUIRY_HEADER_VERSION_SPC2,
               field_3 = word_of_int SCSI_INQUIRY_HEADER_FORMAT_SPC2,
               additional_length =
                 word_of_int (int (sizeof SCSIResponseInquiryFeatures_fields))\<rparr>,
            features =
              \<lparr>features_field_0 = 0, features_flags = 0,
               vendor_id = replicate 8 0, product_id = replicate 16 0,
               product_revision = replicate 4 0\<rparr>\<rparr>;
           result = result\<lparr>features := (features result)
             \<lparr>vendor_id := memmove (vendor_id (features result)) vendor (length vendor)\<rparr>\<rparr>;
           result = result\<lparr>features := (features result)
             \<lparr>product_id := memmove (product_id (features result)) product (length product)\<rparr>\<rparr>;
           result = result\<lparr>features := (features result)
             \<lparr>product_revision :=
                memmove (product_revision (features result)) revision (length revision)\<rparr>\<rparr>
         in Inr result))"

record SCSIResponseModeSense6Header =
  mode_data_length :: byte
  medium_type :: byte
  device_specific_params :: byte
  block_descriptor_length :: byte

definition SCSIResponseModeSense6Header_fields :: "(string \<times> nat) list" where
  "SCSIResponseModeSense6Header_fields =
     [(''mode_data_length'', 1), (''medium_type'', 1), (''device_specific_params'', 1),
      (''block_descriptor_length'', 1)]"


definition SCSIResponseModeSense10Header_fields :: "(string \<times> nat) list" where
  "SCSIResponseModeSense10Header_fields =
     [(''mode_data_length'', 2), (''medium_type'', 1), (''device_specific_params'', 1),
      (''flags'', 1), (''_reserved'', 1), (''block_descriptor_length'', 2)]"

text \<open>
  The bytes of each response structure, as \<^verbatim>\<open>inep.write\<close> sends them: the fields in
  declaration order, multi-byte ones in the byte order of a \<^verbatim>\<open>BigEndianStructure\<close>.
\<close>

definition bytes_of_SCSIResponseRequestSense :: "SCSIResponseRequestSense \<Rightarrow> byte list" where
  "bytes_of_SCSIResponseRequestSense r =
     [field_0 (header r), obsolete (header r), field_2 (header r)]
       @ put_be32 (information (header r))
       @ [additional_sense_length (header r)]
       @ put_be32 (command_specific_information (ext r))
       @ put_be16 (asc_ascq (ext r))
       @ [field_replaceable_unit_code (ext r), sense_key_specific_0 (ext r),
          sense_key_specific_1 (ext r), sense_key_specific_2 (ext r)]"

definition bytes_of_SCSIResponseInquiry :: "SCSIResponseInquiry \<Rightarrow> byte list" where
  "bytes_of_SCSIResponseInquiry r =
     [peripheral_type (inquiry_header r), field_1 (inquiry_header r),
      version (inquiry_header r), field_3 (inquiry_header r),
      additional_length (inquiry_header r)]
       @ [features_field_0 (features r)]
       @ put_be16 (features_flags (features r))
       @ vendor_id (features r) @ product_id (features r) @ product_revision (features r)"

definition bytes_of_SCSIResponseModeSense6Header ::
  "SCSIResponseModeSense6Header \<Rightarrow> byte list" where
  "bytes_of_SCSIResponseModeSense6Header r =
     [mode_data_length r, medium_type r, device_specific_params r, block_descriptor_length r]"


text \<open>\<^verbatim>\<open>n.to_bytes(4, 'big')\<close> raises \<^verbatim>\<open>OverflowError\<close> outside the 32-bit unsigned range.\<close>

definition to_bytes_4_big :: "int \<Rightarrow> exc + byte list" where
  "to_bytes_4_big n =
     (if n < 0 \<or> 2 ^ 32 \<le> n then Inl OverflowError else Inr (put_be32 (word_of_int n)))"

text \<open>What a command handler returns when it returns something other than \<^verbatim>\<open>None\<close>.\<close>

datatype response =
    RequestSenseResponse SCSIResponseRequestSense
  | ModeSense6Response SCSIResponseModeSense6Header
  | InquiryResponse SCSIResponseInquiry
  | BytesResponse "byte list"

fun bytes_of_response :: "response \<Rightarrow> byte list" where
  "bytes_of_response (RequestSenseResponse r) = bytes_of_SCSIResponseRequestSense r"
| "bytes_of_response (ModeSense6Response r) = bytes_of_SCSIResponseModeSense6Header r"
| "bytes_of_response (InquiryResponse r) = bytes_of_SCSIResponseInquiry r"
| "bytes_of_response (BytesResponse b) = b"

section \<open>Logical units\<close>

text \<open>
  A logical unit object holds its pending sense and whatever a subclass keeps besides
  (\<open>backend\<close>; the base class keeps nothing). The attribute \<^verbatim>\<open>sense\<close> exists only once
  it has been assigned: \<^verbatim>\<open>MassStorageLogicalUnit.__init__\<close> assigns \<^verbatim>\<open>None\<close> to it, a
  subclass whose \<^verbatim>\<open>__init__\<close> does not call the base class's leaves it unset, and reading
  an unset attribute raises \<^verbatim>\<open>AttributeError\<close>. A method takes the object and returns the
  value it returns or the exception it raises, together with the object as the call
  leaves it. The methods that a subclass may override are the fields of
  \<open>lu_methods\<close>; \<^verbatim>\<open>onCommand\<close> calls them through that record.
\<close>

datatype 'a attribute = Unset | Attr 'a

record 'b MassStorageLogicalUnit =
  sense :: "SCSIResponseRequestSense option attribute"
  backend :: 'b

type_synonym ('b, 'r) lu_method =
  "'b MassStorageLogicalUnit \<Rightarrow> (exc + 'r) \<times> 'b MassStorageLogicalUnit"

definition return_value :: "'r \<Rightarrow> ('b, 'r) lu_method" where
  "return_value r lu = (Inr r, lu)"

definition raise_exc :: "exc \<Rightarrow> ('b, 'r) lu_method" where
  "raise_exc e lu = (Inl e, lu)"

definition then_do :: "('b, 'r) lu_method \<Rightarrow> ('r \<Rightarrow> ('b, 'q) lu_method) \<Rightarrow> ('b, 'q) lu_method" where
  "then_do f k lu = (case f lu of (Inl e, lu') \<Rightarrow> (Inl e, lu') | (Inr r, lu') \<Rightarrow> k r lu')"

record 'b lu_methods =
  onReset :: "('b, unit) lu_method"
  onTestUnitReady :: "('b, unit) lu_method"
  onInquiry :: "int \<Rightarrow> ('b, response) lu_method"
  onReadCapacity :: "('b, int \<times> int) lu_method"
  onRead :: "int \<Rightarrow> int \<Rightarrow> ('b, byte list) lu_method"
  onWrite :: "int \<Rightarrow> byte list \<Rightarrow> ('b, unit) lu_method"
  onVerify :: "int \<Rightarrow> byte list option \<Rightarrow> ('b, unit) lu_method"

text \<open>The methods of the base class \<^verbatim>\<open>MassStorageLogicalUnit\<close>.\<close>

definition MassStorageLogicalUnit_init :: "unit MassStorageLogicalUnit" where
  "MassStorageLogicalUnit_init = \<lparr>sense = Attr None, backend = ()\<rparr>"

definition MassStorageLogicalUnit_onReset :: "('b, unit) lu_method" where
  "MassStorageLogicalUnit_onReset = return_value ()"

definition MassStorageLogicalUnit_onTestUnitReady :: "('b, unit) lu_method" where
  "MassStorageLogicalUnit_onTestUnitReady = return_value ()"

definition MassStorageLogicalUnit_onInquiry :: "int \<Rightarrow> ('b, response) lu_method" where
  "MassStorageLogicalUnit_onInquiry request_size =
     (if request_size \<ge> int (sizeof SCSIResponseInquiry_fields) then
        (case SCSIResponseInquiry_simple
                (SCSI_INQUIRY_PERIF_QUALIFIER_LOADED OR SCSI_INQUIRY_PERIF_TYPE_DIRECT)
                True (bytes_literal ''PyFFS'') (bytes_literal ''USBMS'') (bytes_literal ''0000'') of
           Inl e \<Rightarrow> raise_exc e
         | Inr r \<Rightarrow> return_value (InquiryResponse r))
      else raise_exc (MassStorageIllegalRequestError SCSI_ASC_INVALID_FIELD_IN_CDB))"

definition MassStorageLogicalUnit_onReadCapacity :: "('b, int \<times> int) lu_method" where
  "MassStorageLogicalUnit_onReadCapacity = return_value (0, 512)"

definition MassStorageLogicalUnit_onRead :: "int \<Rightarrow> int \<Rightarrow> ('b, byte list) lu_method" where
  "MassStorageLogicalUnit_onRead lba len = return_value (replicate (nat (len * 512)) 0)"

definition MassStorageLogicalUnit_onWrite :: "int \<Rightarrow> byte list \<Rightarrow> ('b, unit) lu_method" where
  "MassStorageLogicalUnit_onWrite lba data = return_value ()"

definition MassStorageLogicalUnit_onVerify ::
  "int \<Rightarrow> byte list option \<Rightarrow> ('b, unit) lu_method" where
  "MassStorageLogicalUnit_onVerify lba data = return_value ()"

definition MassStorageLogicalUnit_methods :: "'b lu_methods" where
  "MassStorageLogicalUnit_methods =
     \<lparr>onReset = MassStorageLogicalUnit_onReset,
      onTestUnitReady = MassStorageLogicalUnit_onTestUnitReady,
      onInquiry = MassStorageLogicalUnit_onInquiry,
      onReadCapacity = MassStorageLogicalUnit_onReadCapacity,
      onRead = MassStorageLogicalUnit_onRead,
      onWrite = MassStorageLogicalUnit_onWrite,
      onVerify = MassStorageLogicalUnit_onVerify\<rparr>"

text \<open>
  \<^verbatim>\<open>onCommand\<close>. The \<^verbatim>\<open>isinstance\<close> chain of the source is the case distinction on the
  instance that \<^verbatim>\<open>cast\<close> returned, in the source's order; an instance that no branch of
  the chain names, and a branch that ends without \<^verbatim>\<open>return\<close>, reach the final
  \<^verbatim>\<open>raise MassStorageIllegalRequestError()\<close>.
\<close>

definition onCommand ::
  "'b lu_methods \<Rightarrow> CBW \<Rightarrow> byte list option \<Rightarrow> ('b, response option) lu_method" where
  "onCommand m cbw data =
     (if \<not> parseable (CBWCB cbw) then raise_exc (MassStorageIllegalRequestError SCSI_ASC_NONE)
      else
        (case cast (CBWCB cbw) of
           Inl e \<Rightarrow> raise_exc e
         | Inr params \<Rightarrow>
             if int (sizeof_params params) \<noteq> uint (bCBWCBLength cbw) - 1
             then raise_exc (MassStorageIllegalRequestError SCSI_ASC_NONE)
             else
               (case params of
                  Void6 p \<Rightarrow>
                    if command (CBWCB cbw) = SCSI_CMD_TEST_UNIT_READY
                    then then_do (onTestUnitReady m) (\<lambda>_. return_value None)
                    else return_value None
                | RequestSense p \<Rightarrow>
                    (\<lambda>lu. case sense lu of
                       Unset \<Rightarrow> raise_exc AttributeError lu
                     | Attr (Some s) \<Rightarrow> return_value (Some (RequestSenseResponse s)) lu
                     | Attr None \<Rightarrow>
                         return_value
                           (Some (RequestSenseResponse
                              (SCSIResponseRequestSense_simple SCSI_SENSE_KEY_NO_SENSE
                                 SCSI_ASC_NONE))) lu)
                | ModeSense6 p \<Rightarrow>
                    return_value
                      (Some (ModeSense6Response
                         \<lparr>mode_data_length =
                            word_of_int
                              (int (sizeof SCSIResponseModeSense6Header_fields) -
                               int (field_size SCSIResponseModeSense6Header_fields
                                      ''mode_data_length'')),
                          medium_type = 0, device_specific_params = 0,
                          block_descriptor_length = 0\<rparr>))
                | Inquiry p \<Rightarrow>
                    then_do (onInquiry m (uint (inq_allocation_length p)))
                      (\<lambda>r. return_value (Some r))
                | StartStopUnit p \<Rightarrow> return_value None
                | PreventAllowMediumRemoval p \<Rightarrow> return_value None
                | ReadCapacity10 p \<Rightarrow>
                    if rc10_flags2 p = 0 then
                      then_do (onReadCapacity m)
                        (\<lambda>(num_lba, sector_size).
                           case to_bytes_4_big num_lba of
                             Inl e \<Rightarrow> raise_exc e
                           | Inr b1 \<Rightarrow>
                               (case to_bytes_4_big sector_size of
                                  Inl e \<Rightarrow> raise_exc e
                                | Inr b2 \<Rightarrow> return_value (Some (BytesResponse (b1 @ b2)))))
                    else raise_exc (MassStorageIllegalRequestError SCSI_ASC_INVALID_FIELD_IN_CDB)
                | IO10 p \<Rightarrow>
                    if command (CBWCB cbw) = SCSI_CMD_READ10 then
                      then_do (onRead m (uint (io10_lba p)) (uint (io10_transfer_length p)))
                        (\<lambda>d. return_value (Some (BytesResponse d)))
                    else if command (CBWCB cbw) = SCSI_CMD_WRITE10 then
                      (case data of
                         None \<Rightarrow> raise_exc MassStoragePhaseError
                       | Some d \<Rightarrow>
                           then_do (onWrite m (uint (io10_lba p)) d) (\<lambda>_. return_value None))
                    else raise_exc (MassStorageIllegalRequestError SCSI_ASC_NONE)
                | Verify10 p \<Rightarrow>
                    (let do_byte_check = (vfy10_flags1 p AND SCSI_VERIFY_F1_BYTCHK \<noteq> 0) in
                     if data = None \<and> do_byte_check
                     then raise_exc (MassStorageIllegalRequestError SCSI_ASC_INVALID_FIELD_IN_CDB)
                     else
                       then_do
                         (onVerify m (uint (vfy10_lba p)) (if do_byte_check then data else None))
                         (\<lambda>_. return_value None))
                | ModeSense10 p \<Rightarrow> raise_exc (MassStorageIllegalRequestError SCSI_ASC_NONE))))"

section \<open>The mass storage function\<close>

text \<open>
  The bulk endpoints are collaborators outside the repository. An endpoint is modelled by
  what the function does to it: whether it has been halted, and the objects written to
  it, oldest first. A write is taken to succeed. Diagnostic output (\<^verbatim>\<open>print\<close>,
  \<^verbatim>\<open>traceback.print_exc\<close>) is left out, except that the \<^verbatim>\<open>print\<close> of the data phase reads
  \<^verbatim>\<open>self._current_cbw.CBWCB\<close> and so raises when there is no current CBW.
\<close>

datatype in_write = WriteResponse response | WriteCSW CSW

record Endpoint =
  halted :: bool
  writes :: "in_write list"

definition Endpoint_new :: Endpoint where
  "Endpoint_new = \<lparr>halted = False, writes = []\<rparr>"

definition ep_halt :: "Endpoint \<Rightarrow> Endpoint" where
  "ep_halt ep = ep\<lparr>halted := True\<rparr>"

definition ep_write :: "in_write \<Rightarrow> Endpoint \<Rightarrow> Endpoint" where
  "ep_write x ep = ep\<lparr>writes := writes ep @ [x]\<rparr>"

text \<open>
  The data payloads and the status wrappers among a sequence of writes, and the bytes
  that the sequence puts on the wire.
\<close>

fun data_payloads :: "in_write list \<Rightarrow> response list" where
  "data_payloads [] = []"
| "data_payloads (WriteResponse r # ws) = r # data_payloads ws"
| "data_payloads (WriteCSW c # ws) = data_payloads ws"

fun status_wrappers :: "in_write list \<Rightarrow> CSW list" where
  "status_wrappers [] = []"
| "status_wrappers (WriteResponse r # ws) = status_wrappers ws"
| "status_wrappers (WriteCSW c # ws) = c # status_wrappers ws"

fun bytes_of_write :: "in_write \<Rightarrow> byte list" where
  "bytes_of_write (WriteResponse r) = bytes_of_response r"
| "bytes_of_write (WriteCSW c) = bytes_of_CSW c"

text \<open>
  The state of a \<^verbatim>\<open>MassStorageFunction\<close>: the session fields, the logical units (each an
  object with the methods of its class), and the endpoints \<^verbatim>\<open>getEndpoint(1)\<close> (bulk IN)
  and \<^verbatim>\<open>getEndpoint(2)\<close> (bulk OUT).
\<close>

record 'b MassStorageFunction =
  receiving_length :: nat
  received_data :: "byte list"
  current_cbw :: "CBW option"
  logical_units :: "('b lu_methods \<times> 'b MassStorageLogicalUnit) list"
  inep :: Endpoint
  outep :: Endpoint

text \<open>
  A logical unit class as \<^verbatim>\<open>__init__\<close> receives it: calling it gives a new object or
  raises.
\<close>

record 'b lu_class =
  methods :: "'b lu_methods"
  construct :: "exc + 'b MassStorageLogicalUnit"

definition MassStorageLogicalUnit_class :: "unit lu_class" where
  "MassStorageLogicalUnit_class =
     \<lparr>methods = MassStorageLogicalUnit_methods, construct = Inr MassStorageLogicalUnit_init\<rparr>"

fun construct_all ::
  "'b lu_class list \<Rightarrow> exc + ('b lu_methods \<times> 'b MassStorageLogicalUnit) list" where
  "construct_all [] = Inr []"
| "construct_all (luc # lucs) =
     (case construct luc of
        Inl e \<Rightarrow> Inl e
      | Inr lu \<Rightarrow>
          (case construct_all lucs of
             Inl e \<Rightarrow> Inl e
           | Inr lus \<Rightarrow> Inr ((methods luc, lu) # lus)))"

text \<open>
  \<^verbatim>\<open>__init__\<close>, up to the call of the parent class's constructor, which builds the USB
  descriptors and is outside the repository.
\<close>

definition MassStorageFunction_init :: "'b lu_class list \<Rightarrow> exc + 'b MassStorageFunction" where
  "MassStorageFunction_init lucs =
     (if length lucs = 0 then Inl ValueError
      else
        (case construct_all lucs of
           Inl e \<Rightarrow> Inl e
         | Inr lus \<Rightarrow>
             Inr \<lparr>receiving_length = 0, received_data = [], current_cbw = None,
                  logical_units = lus, inep = Endpoint_new, outep = Endpoint_new\<rparr>))"

definition getMaxLUN :: "'b MassStorageFunction \<Rightarrow> int" where
  "getMaxLUN s = int (length (logical_units s)) - 1"

text \<open>\<^verbatim>\<open>reset\<close>: the loop over the logical units stops at the first \<^verbatim>\<open>onReset\<close> that raises.\<close>

fun reset_units ::
  "('b lu_methods \<times> 'b MassStorageLogicalUnit) list \<Rightarrow>
     (exc + unit) \<times> ('b lu_methods \<times> 'b MassStorageLogicalUnit) list" where
  "reset_units [] = (Inr (), [])"
| "reset_units ((m, lu) # lus) =
     (case onReset m lu of
        (Inl e, lu') \<Rightarrow> (Inl e, (m, lu') # lus)
      | (Inr _, lu') \<Rightarrow>
          (case reset_units lus of (r, lus') \<Rightarrow> (r, (m, lu') # lus')))"

definition reset :: "'b MassStorageFunction \<Rightarrow> (exc + unit) \<times> 'b MassStorageFunction" where
  "reset s =
     (case reset_units (logical_units s) of
        (Inl e, lus) \<Rightarrow> (Inl e, s\<lparr>logical_units := lus\<rparr>)
      | (Inr _, lus) \<Rightarrow>
          (Inr (), s\<lparr>logical_units := lus, receiving_length := 0, received_data := [],
                     current_cbw := None\<rparr>))"

definition set_sense ::
  "nat \<Rightarrow> SCSIResponseRequestSense option \<Rightarrow> 'b MassStorageFunction \<Rightarrow> 'b MassStorageFunction" where
  "set_sense i sn s =
     s\<lparr>logical_units :=
         (logical_units s)[i := (fst (logical_units s ! i), (snd (logical_units s ! i))\<lparr>sense := Attr sn\<rparr>)]\<rparr>"

definition inep_write :: "in_write \<Rightarrow> 'b MassStorageFunction \<Rightarrow> 'b MassStorageFunction" where
  "inep_write x s = s\<lparr>inep := ep_write x (inep s)\<rparr>"

text \<open>
  \<^verbatim>\<open>_processCBW\<close>. Assigning \<^verbatim>\<open>.sense\<close> sets the attribute, whether it was set before
  or not. Indexing the tuple of logical units with a LUN beyond its end raises
  \<^verbatim>\<open>IndexError\<close> inside the \<^verbatim>\<open>try\<close>; the handler for \<^verbatim>\<open>Exception\<close> indexes it again and so
  raises \<^verbatim>\<open>IndexError\<close> itself, which leaves the method.
\<close>

definition processCBW ::
  "CBW \<Rightarrow> byte list option \<Rightarrow> 'b MassStorageFunction \<Rightarrow> (exc + unit) \<times> 'b MassStorageFunction" where
  "processCBW cbw data s =
     (let i = unat (bCBWLUN cbw) in
      if i < length (logical_units s) then
        (case logical_units s ! i of (m, lu) \<Rightarrow>
           (case onCommand m cbw data lu of
              (Inr response_data, lu') \<Rightarrow>
                (let s1 = s\<lparr>logical_units := (logical_units s)[i := (m, lu')]\<rparr>;
                     s2 = (case response_data of
                             None \<Rightarrow> s1
                           | Some r \<Rightarrow> inep_write (WriteResponse r) s1)
                 in (Inr (),
                     inep_write
                       (WriteCSW (CSW_simple (uint (dCBWTag cbw)) USBMS_CSW_STATUS_GOOD 0)) s2))
            | (Inl err, lu') \<Rightarrow>
                (let s1 = s\<lparr>logical_units := (logical_units s)[i := (m, lu')]\<rparr> in
                 case err of
                   MassStorageError csw_status sn \<Rightarrow>
                     (Inr (),
                      inep_write (WriteCSW (CSW_simple (uint (dCBWTag cbw)) csw_status 0))
                        (set_sense i sn s1))
                 | _ \<Rightarrow>
                     (Inr (),
                      inep_write
                        (WriteCSW
                           (CSW_simple (uint (dCBWTag cbw)) USBMS_CSW_STATUS_PHASE_ERROR 0))
                        (set_sense i None s1)))))
      else (Inl IndexError, s))"

definition halt_both :: "'b MassStorageFunction \<Rightarrow> 'b MassStorageFunction" where
  "halt_both s = s\<lparr>inep := ep_halt (inep s), outep := ep_halt (outep s)\<rparr>"

text \<open>The body of the \<^verbatim>\<open>try\<close> statement of \<^verbatim>\<open>_onOutEndpointComplete\<close>.\<close>

definition onOutEndpointComplete_try ::
  "byte list option \<Rightarrow> 'b MassStorageFunction \<Rightarrow> (exc + unit) \<times> 'b MassStorageFunction" where
  "onOutEndpointComplete_try data s =
     (if receiving_length s = 0 then
        (case CBW_from_buffer data of
           Inl e \<Rightarrow> (Inl e, s)
         | Inr cbw \<Rightarrow>
             if uint (dCBWSignature cbw) \<noteq> USBMS_CBW_MAGIC then (Inr (), halt_both s)
             else if dCBWDataTransferLength cbw = 0 \<or>
                     bmCBWFlags cbw AND USBMS_CBW_DIR_MASK = USBMS_CBW_DIR_IN
               then processCBW cbw None s
             else
               (let s1 = s\<lparr>receiving_length := unat (dCBWDataTransferLength cbw),
                           received_data := []\<rparr>
                in case CBW_from_buffer_copy data of
                     Inl e \<Rightarrow> (Inl e, s1)
                   | Inr c \<Rightarrow> (Inr (), s1\<lparr>current_cbw := Some c\<rparr>)))
      else
        (case data of
           None \<Rightarrow> (Inl TypeError, s)
         | Some d \<Rightarrow>
             (let s1 = s\<lparr>received_data := received_data s @ d\<rparr> in
              case current_cbw s1 of
                None \<Rightarrow> (Inl AttributeError, s1)
              | Some cbw \<Rightarrow>
                  if length (received_data s1) = receiving_length s1 then
                    (let s2 = s1\<lparr>receiving_length := 0\<rparr>
                     in processCBW cbw (Some (received_data s2)) s2)
                  else (Inr (), s1))))"

text \<open>
  \<^verbatim>\<open>_onOutEndpointComplete\<close>, as \<^verbatim>\<open>MassStorageEndpointOUTFile.onComplete\<close> calls it (that
  wrapper only drops the completions whose status is \<^verbatim>\<open>-errno.ESHUTDOWN\<close> and is not
  modelled): a non-zero status halts both endpoints and raises
  \<^verbatim>\<open>IOError\<close>; an exception that leaves the \<^verbatim>\<open>try\<close> body halts both endpoints and is
  swallowed.
\<close>

definition onOutEndpointComplete ::
  "byte list option \<Rightarrow> int \<Rightarrow> 'b MassStorageFunction \<Rightarrow> (exc + unit) \<times> 'b MassStorageFunction" where
  "onOutEndpointComplete data status s =
     (if status \<noteq> 0 then (Inl (IOError (- status)), halt_both s)
      else
        (case onOutEndpointComplete_try data s of
           (Inl e, s') \<Rightarrow> (Inr (), halt_both s')
         | (Inr _, s') \<Rightarrow> (Inr (), s')))"

section \<open>Hosts, packets and runs\<close>

text \<open>
  The \<^verbatim>\<open>parameters\<close> field of a command buffer is an array of 15 bytes; a CBW read from
  a packet always has that many.
\<close>

definition CBW_wellformed :: "CBW \<Rightarrow> bool" where
  "CBW_wellformed cbw = (length (parameters (CBWCB cbw)) = 15)"

text \<open>
  A CBW as a host builds it for a command: the CBW signature, a tag, the length and the
  flags of the data phase, the LUN, and the opcode with its parameter bytes, whose
  number plus one is the declared CDB length; the command buffer is padded with zeros.
\<close>

definition host_CBW :: "int \<Rightarrow> int \<Rightarrow> byte \<Rightarrow> byte \<Rightarrow> byte \<Rightarrow> byte list \<Rightarrow> CBW" where
  "host_CBW tag len flags lun opcode ps =
     \<lparr>dCBWSignature = word_of_int USBMS_CBW_MAGIC,
      dCBWTag = word_of_int tag,
      dCBWDataTransferLength = word_of_int len,
      bmCBWFlags = flags,
      bCBWLUN = lun,
      bCBWCBLength = of_nat (1 + length ps),
      CBWCB = \<lparr>command = opcode, parameters = take 15 (ps @ replicate 15 0)\<rparr>\<rparr>"

text \<open>The 31 bytes of a CBW on the wire (a \<^verbatim>\<open>LittleEndianStructure\<close>).\<close>

definition bytes_of_CBW :: "CBW \<Rightarrow> byte list" where
  "bytes_of_CBW c =
     put_le32 (dCBWSignature c) @ put_le32 (dCBWTag c) @ put_le32 (dCBWDataTransferLength c)
       @ [bmCBWFlags c, bCBWLUN c, bCBWCBLength c, command (CBWCB c)]
       @ parameters (CBWCB c)"

text \<open>
  The events that the surrounding framework delivers to a function, one at a time: an
  OUT-endpoint completion and a Bulk-Only Reset. An exception that leaves the callback
  is the caller's; the function's state stays as the callback left it.
\<close>

datatype event = OutComplete "byte list option" int | BulkOnlyReset

fun step :: "event \<Rightarrow> 'b MassStorageFunction \<Rightarrow> 'b MassStorageFunction" where
  "step (OutComplete data status) s = snd (onOutEndpointComplete data status s)"
| "step BulkOnlyReset s = snd (reset s)"

fun run :: "event list \<Rightarrow> 'b MassStorageFunction \<Rightarrow> 'b MassStorageFunction" where
  "run [] s = s"
| "run (e # es) s = run es (step e s)"

text \<open>
  The function that \<^verbatim>\<open>__init__\<close> builds for a single logical unit of the base class.
\<close>

definition single_unit_function :: "unit MassStorageFunction" where
  "single_unit_function =
     \<lparr>receiving_length = 0, received_data = [], current_cbw = None,
      logical_units = [(MassStorageLogicalUnit_methods, MassStorageLogicalUnit_init)],
      inep = Endpoint_new, outep = Endpoint_new\<rparr>"

section \<open>The logical unit of \<^verbatim>\<open>dfusim/cli.py\<close>\<close>

text \<open>
  Python's slices of a sequence of \<open>n\<close> elements: an index is clamped to the sequence, a
  negative one counting from its end. Reading \<^verbatim>\<open>xs[a:b]\<close> gives the elements between the
  two indices; assigning to \<^verbatim>\<open>xs[a:b]\<close> of a \<^verbatim>\<open>bytearray\<close> replaces them, and the
  sequence grows or shrinks.
\<close>

definition slice_index :: "int \<Rightarrow> nat \<Rightarrow> nat" where
  "slice_index i n = (if i < 0 then nat (max 0 (int n + i)) else min (nat i) n)"

definition get_slice :: "'a list \<Rightarrow> int \<Rightarrow> int \<Rightarrow> 'a list" where
  "get_slice xs a b =
     (let start = slice_index a (length xs); stop = slice_index b (length xs)
      in take (stop - start) (drop start xs))"

definition set_slice :: "'a list \<Rightarrow> int \<Rightarrow> int \<Rightarrow> 'a list \<Rightarrow> 'a list" where
  "set_slice xs a b ys =
     (let start = slice_index a (length xs); stop = max start (slice_index b (length xs))
      in take start xs @ ys @ drop stop xs)"

text \<open>
  \<^verbatim>\<open>MassStorageLogicalUnitDummy\<close>: a block device in memory. Its \<^verbatim>\<open>__init__\<close> allocates
  \<^verbatim>\<open>_io\<close> and does not call the base class's \<^verbatim>\<open>__init__\<close>, so a new object has no
  \<^verbatim>\<open>sense\<close> attribute. It overrides \<^verbatim>\<open>onRead\<close>, \<^verbatim>\<open>onWrite\<close> and \<^verbatim>\<open>onReadCapacity\<close> and
  inherits the other methods.
\<close>

definition BLOCK_SIZE :: int where "BLOCK_SIZE = 512"
definition LBA_COUNT :: int where "LBA_COUNT = 16 * 1024 * 1024 div BLOCK_SIZE"

definition MassStorageLogicalUnitDummy_init :: "byte list MassStorageLogicalUnit" where
  "MassStorageLogicalUnitDummy_init =
     \<lparr>sense = Unset, backend = replicate (nat (BLOCK_SIZE * LBA_COUNT)) 0\<rparr>"

definition MassStorageLogicalUnitDummy_onRead ::
  "int \<Rightarrow> int \<Rightarrow> (byte list, byte list) lu_method" where
  "MassStorageLogicalUnitDummy_onRead lba len lu =
     (let offset = lba * BLOCK_SIZE; size = len * BLOCK_SIZE
      in (Inr (get_slice (backend lu) offset (offset + size)), lu))"

definition MassStorageLogicalUnitDummy_onWrite ::
  "int \<Rightarrow> byte list \<Rightarrow> (byte list, unit) lu_method" where
  "MassStorageLogicalUnitDummy_onWrite lba data lu =
     (let offset = lba * BLOCK_SIZE
      in (Inr (),
          lu\<lparr>backend := set_slice (backend lu) offset (offset + int (length data)) data\<rparr>))"

definition MassStorageLogicalUnitDummy_onReadCapacity ::
  "(byte list, int \<times> int) lu_method" where
  "MassStorageLogicalUnitDummy_onReadCapacity = return_value (LBA_COUNT - 1, BLOCK_SIZE)"

definition MassStorageLogicalUnitDummy_methods :: "byte list lu_methods" where
  "MassStorageLogicalUnitDummy_methods =
     \<lparr>onReset = MassStorageLogicalUnit_onReset,
      onTestUnitReady = MassStorageLogicalUnit_onTestUnitReady,
      onInquiry = MassStorageLogicalUnit_onInquiry,
      onReadCapacity = MassStorageLogicalUnitDummy_onReadCapacity,
      onRead = MassStorageLogicalUnitDummy_onRead,
      onWrite = MassStorageLogicalUnitDummy_onWrite,
      onVerify = MassStorageLogicalUnit_onVerify\<rparr>"

definition MassStorageLogicalUnitDummy_class :: "byte list lu_class" where
  "MassStorageLogicalUnitDummy_class =
     \<lparr>methods = MassStorageLogicalUnitDummy_methods,
      construct = Inr MassStorageLogicalUnitDummy_init\<rparr>"

text \<open>\<^verbatim>\<open>get_function_instance\<close>: the function that the program registers.\<close>

definition get_function_instance :: "exc + byte list MassStorageFunction" where
  "get_function_instance = MassStorageFunction_init [MassStorageLogicalUnitDummy_class]"

text \<open>The state that \<^verbatim>\<open>get_function_instance\<close> returns.\<close>

definition dummy_unit_function :: "byte list MassStorageFunction" where
  "dummy_unit_function =
     \<lparr>receiving_length = 0, received_data = [], current_cbw = None,
      logical_units = [(MassStorageLogicalUnitDummy_methods, MassStorageLogicalUnitDummy_init)],
      inep = Endpoint_new, outep = Endpoint_new\<rparr>"

section \<open>Facts about the byte order\<close>

lemma byte_bound: "unat (b :: byte) < 256"
  using unsigned_less [of b, where ?'a = nat] by simp

lemma unat_word_of_int_nat:
  "unat (word_of_int (int n) :: 'a::len word) = n mod 2 ^ LENGTH('a)"
  by (metis of_int_of_nat_eq unat_of_nat)


lemma get_be32_of_nat:
  "get_be32 a b c d =
     word_of_int (int (16777216 * unat a + 65536 * unat b + 256 * unat c + unat d))"
  unfolding get_be32_def word_rcat_def
  by (simp only: o_def rev.simps append.simps horner_sum_simps uint_nat) simp


lemma unat_get_be32:
  "unat (get_be32 a b c d) = 16777216 * unat a + 65536 * unat b + 256 * unat c + unat d"
proof -
  have "16777216 * unat a + 65536 * unat b + 256 * unat c + unat d < 4294967296"
    using byte_bound [of a] byte_bound [of b] byte_bound [of c] byte_bound [of d] by simp
  then show ?thesis
    unfolding get_be32_of_nat unat_word_of_int_nat by simp
qed

lemma get_le32_be32: "get_le32 a b c d = get_be32 d c b a"
  by (simp add: get_le32_def get_be32_def)

lemma unat_low_byte: "unat (ucast (w :: 'a::len word) :: byte) = unat w mod 256"
  unfolding unsigned_ucast_eq take_bit_eq_mod by simp

lemma unat_shifted_byte:
  "unat (ucast (drop_bit k (w :: 'a::len word)) :: byte) = unat w div 2 ^ k mod 256"
proof -
  have "unat (ucast (drop_bit k w) :: byte) = unat (drop_bit k w) mod 256"
    by (rule unat_low_byte)
  also have "unat (drop_bit k w) = drop_bit k (unat w)"
    by (rule unat_drop_bit_eq)
  also have "drop_bit k (unat w) = unat w div 2 ^ k"
    by (rule drop_bit_eq_div)
  finally show ?thesis .
qed


lemma split32:
  assumes "(n::nat) < 4294967296"
  shows "16777216 * (n div 16777216 mod 256) + 65536 * (n div 65536 mod 256)
           + 256 * (n div 256 mod 256) + n mod 256 = n"
proof -
  have 1: "n div 16777216 mod 256 = n div 16777216" using assms by simp
  have 2: "n div 65536 = 256 * (n div 16777216) + n div 65536 mod 256"
    using div_mult2_eq [of n 65536 256] by simp
  have 3: "n div 256 = 256 * (n div 65536) + n div 256 mod 256"
    using div_mult2_eq [of n 256 256] by simp
  have 4: "n = 256 * (n div 256) + n mod 256" by simp
  show ?thesis using 1 2 3 4 by linarith
qed


lemma get_put_be32:
  "get_be32 (ucast (drop_bit 24 w)) (ucast (drop_bit 16 w)) (ucast (drop_bit 8 w)) (ucast w)
     = (w :: 32 word)"
proof -
  have "unat w < 4294967296" using unsigned_less [of w, where ?'a = nat] by simp
  then have "16777216 * (unat w div 2 ^ 24 mod 256) + 65536 * (unat w div 2 ^ 16 mod 256)
      + 256 * (unat w div 2 ^ 8 mod 256) + unat w mod 256 = unat w"
    using split32 [of "unat w"] by simp
  then show ?thesis
    unfolding word_unat_eq_iff unat_get_be32 unat_shifted_byte
    unfolding unat_low_byte .
qed

lemma length_put_le32: "length (put_le32 w) = 4"
  by (simp add: put_le32_def put_be32_def)

lemma nth_put_le32:
  "put_le32 w ! 0 = ucast w" "put_le32 w ! 1 = ucast (drop_bit 8 w)"
  "put_le32 w ! 2 = ucast (drop_bit 16 w)" "put_le32 w ! 3 = ucast (drop_bit 24 w)"
  by (simp_all add: put_le32_def put_be32_def numeral_3_eq_3)

lemma get_put_le32:
  "get_le32 (put_le32 w ! 0) (put_le32 w ! 1) (put_le32 w ! 2) (put_le32 w ! 3) = w"
  unfolding nth_put_le32 get_le32_be32 by (rule get_put_be32)

lemma sizeof_CSW: "sizeof CSW_fields = 13"
  by (simp add: sizeof_def CSW_fields_def)

lemma length_bytes_of_CSW: "length (bytes_of_CSW c) = 13"
  by (simp add: bytes_of_CSW_def length_put_le32)

lemma CSW_decode_encode: "CSW_from_buffer_copy (bytes_of_CSW c) = Inr c"
proof -
  let ?bs = "bytes_of_CSW c"
  have sig: "get_le32 (?bs ! 0) (?bs ! 1) (?bs ! 2) (?bs ! 3) = dCSWSignature c"
    using get_put_le32 [of "dCSWSignature c"]
    by (simp add: bytes_of_CSW_def nth_append length_put_le32)
  have tag: "get_le32 (?bs ! 4) (?bs ! 5) (?bs ! 6) (?bs ! 7) = dCSWTag c"
    using get_put_le32 [of "dCSWTag c"]
    by (simp add: bytes_of_CSW_def nth_append length_put_le32)
  have res: "get_le32 (?bs ! 8) (?bs ! 9) (?bs ! 10) (?bs ! 11) = dCSWDataResidue c"
    using get_put_le32 [of "dCSWDataResidue c"]
    by (simp add: bytes_of_CSW_def nth_append length_put_le32)
  have st: "?bs ! 12 = bCSWStatus c"
    by (simp add: bytes_of_CSW_def nth_append length_put_le32)
  show ?thesis
    unfolding CSW_from_buffer_copy_def sizeof_CSW length_bytes_of_CSW sig tag res st
    by simp
qed

section \<open>Round trip of the command status wrapper\<close>

lemma uint_word_of_int_in_range:
  "0 \<le> k \<Longrightarrow> k < 2 ^ LENGTH('a) \<Longrightarrow> uint (word_of_int k :: 'a::len word) = k"
  by (simp add: uint_word_of_int_eq take_bit_int_eq_self)

text \<open>
  A Python integer outside the range of a field is stored without a range check: the
  field keeps its low bits.
\<close>

lemma CSW_simple_fields:
  "uint (dCSWSignature (CSW_simple tag status residue)) = 0x53425355"
  "uint (dCSWTag (CSW_simple tag status residue)) = tag mod 2 ^ 32"
  "uint (bCSWStatus (CSW_simple tag status residue)) = status mod 2 ^ 8"
  "uint (dCSWDataResidue (CSW_simple tag status residue)) = residue mod 2 ^ 32"
  by (simp_all add: CSW_simple_def USBMS_CSW_MAGIC_def uint_word_of_int_eq take_bit_eq_mod)

text \<open>
  Claim C9, as the code has it. For every tag and residue in the range of the 32-bit
  fields (0 to \<^verbatim>\<open>0xffffffff\<close>) and every status in the range of the 8-bit field (0 to
  255), the 13 bytes of \<^verbatim>\<open>CSW.simple(tag, status, residue)\<close> decode to a record whose
  signature is \<^verbatim>\<open>0x53425355\<close> and whose tag, status and data residue are the inputs.
\<close>

theorem CSW_simple_roundtrip:
  assumes "0 \<le> tag" and "tag < 2 ^ 32"
    and "0 \<le> status" and "status < 2 ^ 8"
    and "0 \<le> residue" and "residue < 2 ^ 32"
  shows "length (bytes_of_CSW (CSW_simple tag status residue)) = 13 \<and>
    (case CSW_from_buffer_copy (bytes_of_CSW (CSW_simple tag status residue)) of
       Inl e \<Rightarrow> False
     | Inr c \<Rightarrow> uint (dCSWSignature c) = 0x53425355 \<and> uint (dCSWTag c) = tag \<and>
         uint (bCSWStatus c) = status \<and> uint (dCSWDataResidue c) = residue)"
proof -
  have "uint (word_of_int tag :: 32 word) = tag"
    using assms(1,2) by (intro uint_word_of_int_in_range) simp_all
  moreover have "uint (word_of_int status :: byte) = status"
    using assms(3,4) by (intro uint_word_of_int_in_range) simp_all
  moreover have "uint (word_of_int residue :: 32 word) = residue"
    using assms(5,6) by (intro uint_word_of_int_in_range) simp_all
  moreover have "uint (word_of_int USBMS_CSW_MAGIC :: 32 word) = 0x53425355"
    by (simp add: USBMS_CSW_MAGIC_def)
  ultimately show ?thesis
    by (simp add: CSW_decode_encode length_bytes_of_CSW) (simp add: CSW_simple_def)
qed

theorem CSW_simple_roundtrip_witness:
  "length (bytes_of_CSW (CSW_simple 0xdeadbeef 1 512)) = 13 \<and>
    (case CSW_from_buffer_copy (bytes_of_CSW (CSW_simple 0xdeadbeef 1 512)) of
       Inl e \<Rightarrow> False
     | Inr c \<Rightarrow> uint (dCSWSignature c) = 0x53425355 \<and> uint (dCSWTag c) = 0xdeadbeef \<and>
         uint (bCSWStatus c) = 1 \<and> uint (dCSWDataResidue c) = 512)"
  using CSW_simple_roundtrip [of "0xdeadbeef" 1 512] by simp

text \<open>
  Outside those ranges the decoded fields are not the inputs:
  \<^verbatim>\<open>CSW.simple(2**32 + 5, 258, -1)\<close> decodes to the tag 5, the status 2 and the data
  residue \<^verbatim>\<open>0xffffffff\<close>.
\<close>

theorem CSW_simple_roundtrip_counterexample:
  "(case CSW_from_buffer_copy (bytes_of_CSW (CSW_simple 4294967301 258 (- 1))) of
      Inl e \<Rightarrow> False
    | Inr c \<Rightarrow>
        uint (dCSWTag c) = 5 \<and> uint (dCSWTag c) \<noteq> 4294967301 \<and>
        uint (bCSWStatus c) = 2 \<and> uint (bCSWStatus c) \<noteq> 258 \<and>
        uint (dCSWDataResidue c) = 4294967295 \<and> uint (dCSWDataResidue c) \<noteq> - 1)"
  by (simp add: CSW_decode_encode CSW_simple_fields)

section \<open>The byte order of every multi-byte field\<close>










lemma length_put [simp]:
  "length (put_be16 v) = 2" "length (put_be32 w) = 4" "length (put_le32 w) = 4"
  by (simp_all add: put_be16_def put_be32_def put_le32_def)













section \<open>Facts about command dispatch\<close>

lemmas opcode_defs =
  SCSI_CMD_TEST_UNIT_READY_def SCSI_CMD_REQUEST_SENSE_def SCSI_CMD_INQUIRY_def
  SCSI_CMD_MODE_SENSE6_def SCSI_CMD_START_STOP_UNIT_def
  SCSI_CMD_PREVENT_ALLOW_MEDIUM_REMOVAL_def SCSI_CMD_READ_CAPACITY10_def
  SCSI_CMD_READ10_def SCSI_CMD_WRITE10_def SCSI_CMD_VERIFY10_def SCSI_CMD_MODE_SENSE10_def

lemmas params_fields_defs =
  SCSIParametersVoid6_fields_def SCSIParametersRequestSense_fields_def
  SCSIParametersInquiry_fields_def SCSIParametersModeSense6_fields_def
  SCSIParametersStartStopUnit_fields_def SCSIParametersPreventAllowMediumRemoval_fields_def
  SCSIParametersReadCapacity10_fields_def SCSIParametersIO10_fields_def
  SCSIParametersVerify10_fields_def SCSIParametersModeSense10_fields_def

lemma sizeof_fields_of:
  "sizeof (fields_of cls) =
     (case cls of ClassReadCapacity10 \<Rightarrow> 9 | ClassIO10 \<Rightarrow> 9 | ClassVerify10 \<Rightarrow> 9
      | ClassModeSense10 \<Rightarrow> 9 | _ \<Rightarrow> 5)"
  by (cases cls) (simp_all add: sizeof_def params_fields_defs)

lemma sizeof_params_fields:
  "sizeof SCSIParametersVoid6_fields = 5"
  "sizeof SCSIParametersRequestSense_fields = 5"
  "sizeof SCSIParametersInquiry_fields = 5"
  "sizeof SCSIParametersModeSense6_fields = 5"
  "sizeof SCSIParametersStartStopUnit_fields = 5"
  "sizeof SCSIParametersPreventAllowMediumRemoval_fields = 5"
  "sizeof SCSIParametersReadCapacity10_fields = 9"
  "sizeof SCSIParametersIO10_fields = 9"
  "sizeof SCSIParametersVerify10_fields = 9"
  "sizeof SCSIParametersModeSense10_fields = 9"
  by (simp_all add: sizeof_def params_fields_defs)

lemma sizeof_fields_of_le: "sizeof (fields_of cls) \<le> 15"
  by (simp add: sizeof_fields_of split: params_class.split)

lemma class_of_read_fields: "class_of (read_fields cls b) = cls"
  by (cases cls) simp_all

lemma parseable_iff: "parseable cb \<longleftrightarrow> map_of PARSERS (command cb) \<noteq> None"
  by (simp add: parseable_def map_of_eq_None_iff)

lemma cast_wellformed:
  assumes "map_of PARSERS (command (CBWCB cbw)) = Some cls" and "CBW_wellformed cbw"
  shows "cast (CBWCB cbw) = Inr (read_fields cls (parameters (CBWCB cbw)))"
  using assms sizeof_fields_of_le [of cls]
  by (simp add: cast_def from_buffer_def CBW_wellformed_def)

lemma PARSERS_lookup:
  "map_of PARSERS SCSI_CMD_TEST_UNIT_READY = Some ClassVoid6"
  "map_of PARSERS SCSI_CMD_REQUEST_SENSE = Some ClassRequestSense"
  "map_of PARSERS SCSI_CMD_INQUIRY = Some ClassInquiry"
  "map_of PARSERS SCSI_CMD_MODE_SENSE6 = Some ClassModeSense6"
  "map_of PARSERS SCSI_CMD_START_STOP_UNIT = Some ClassStartStopUnit"
  "map_of PARSERS SCSI_CMD_PREVENT_ALLOW_MEDIUM_REMOVAL = Some ClassPreventAllowMediumRemoval"
  "map_of PARSERS SCSI_CMD_READ_CAPACITY10 = Some ClassReadCapacity10"
  "map_of PARSERS SCSI_CMD_READ10 = Some ClassIO10"
  "map_of PARSERS SCSI_CMD_WRITE10 = Some ClassIO10"
  "map_of PARSERS SCSI_CMD_VERIFY10 = Some ClassVerify10"
  "map_of PARSERS SCSI_CMD_MODE_SENSE10 = Some ClassModeSense10"
  by (simp_all add: PARSERS_def opcode_defs)

text \<open>The size check of \<^verbatim>\<open>onCommand\<close>, and what it does once the check has passed.\<close>

lemma onCommand_size_mismatch:
  assumes "map_of PARSERS (command (CBWCB cbw)) = Some cls" and "CBW_wellformed cbw"
    and "uint (bCBWCBLength cbw) - 1 \<noteq> int (sizeof (fields_of cls))"
  shows "onCommand m cbw data lu = (Inl (MassStorageIllegalRequestError SCSI_ASC_NONE), lu)"
  using assms
  by (simp add: onCommand_def parseable_iff cast_wellformed sizeof_params_def
      class_of_read_fields raise_exc_def)

lemma onCommand_dispatch:
  assumes "map_of PARSERS (command (CBWCB cbw)) = Some cls" and "CBW_wellformed cbw"
    and "uint (bCBWCBLength cbw) - 1 = int (sizeof (fields_of cls))"
  shows "onCommand m cbw data lu =
    (case read_fields cls (parameters (CBWCB cbw)) of
                  Void6 p \<Rightarrow>
                    if command (CBWCB cbw) = SCSI_CMD_TEST_UNIT_READY
                    then then_do (onTestUnitReady m) (\<lambda>_. return_value None)
                    else return_value None
                | RequestSense p \<Rightarrow>
                    (\<lambda>lu. case sense lu of
                       Unset \<Rightarrow> raise_exc AttributeError lu
                     | Attr (Some s) \<Rightarrow> return_value (Some (RequestSenseResponse s)) lu
                     | Attr None \<Rightarrow>
                         return_value
                           (Some (RequestSenseResponse
                              (SCSIResponseRequestSense_simple SCSI_SENSE_KEY_NO_SENSE
                                 SCSI_ASC_NONE))) lu)
                | ModeSense6 p \<Rightarrow>
                    return_value
                      (Some (ModeSense6Response
                         \<lparr>mode_data_length =
                            word_of_int
                              (int (sizeof SCSIResponseModeSense6Header_fields) -
                               int (field_size SCSIResponseModeSense6Header_fields
                                      ''mode_data_length'')),
                          medium_type = 0, device_specific_params = 0,
                          block_descriptor_length = 0\<rparr>))
                | Inquiry p \<Rightarrow>
                    then_do (onInquiry m (uint (inq_allocation_length p)))
                      (\<lambda>r. return_value (Some r))
                | StartStopUnit p \<Rightarrow> return_value None
                | PreventAllowMediumRemoval p \<Rightarrow> return_value None
                | ReadCapacity10 p \<Rightarrow>
                    if rc10_flags2 p = 0 then
                      then_do (onReadCapacity m)
                        (\<lambda>(num_lba, sector_size).
                           case to_bytes_4_big num_lba of
                             Inl e \<Rightarrow> raise_exc e
                           | Inr b1 \<Rightarrow>
                               (case to_bytes_4_big sector_size of
                                  Inl e \<Rightarrow> raise_exc e
                                | Inr b2 \<Rightarrow> return_value (Some (BytesResponse (b1 @ b2)))))
                    else raise_exc (MassStorageIllegalRequestError SCSI_ASC_INVALID_FIELD_IN_CDB)
                | IO10 p \<Rightarrow>
                    if command (CBWCB cbw) = SCSI_CMD_READ10 then
                      then_do (onRead m (uint (io10_lba p)) (uint (io10_transfer_length p)))
                        (\<lambda>d. return_value (Some (BytesResponse d)))
                    else if command (CBWCB cbw) = SCSI_CMD_WRITE10 then
                      (case data of
                         None \<Rightarrow> raise_exc MassStoragePhaseError
                       | Some d \<Rightarrow>
                           then_do (onWrite m (uint (io10_lba p)) d) (\<lambda>_. return_value None))
                    else raise_exc (MassStorageIllegalRequestError SCSI_ASC_NONE)
                | Verify10 p \<Rightarrow>
                    (let do_byte_check = (vfy10_flags1 p AND SCSI_VERIFY_F1_BYTCHK \<noteq> 0) in
                     if data = None \<and> do_byte_check
                     then raise_exc (MassStorageIllegalRequestError SCSI_ASC_INVALID_FIELD_IN_CDB)
                     else
                       then_do
                         (onVerify m (uint (vfy10_lba p)) (if do_byte_check then data else None))
                         (\<lambda>_. return_value None))
                | ModeSense10 p \<Rightarrow> raise_exc (MassStorageIllegalRequestError SCSI_ASC_NONE)) lu"
  using assms
  by (simp add: onCommand_def parseable_iff cast_wellformed sizeof_params_def
      class_of_read_fields)

lemma parseable_opcodes:
  "parseable cb \<longleftrightarrow>
     command cb \<in> {0x00, 0x03, 0x12, 0x1a, 0x1b, 0x1e, 0x25, 0x28, 0x2a, 0x2f, 0x5a}"
  by (simp add: parseable_def PARSERS_def opcode_defs)

text \<open>
  Claim C7. For every opcode of the parser table, a CBW whose declared CDB length minus
  one differs from the size of the opcode's parameter structure makes \<^verbatim>\<open>onCommand\<close>
  raise IllegalRequest and leave the logical unit as it was; the outcome is the same
  whatever the parameter bytes, the data buffer and the unit's methods are, so no
  parameter field has been used.
\<close>

theorem onCommand_rejects_wrong_CDB_length:
  assumes "map_of PARSERS (command (CBWCB cbw)) = Some parser"
    and "CBW_wellformed cbw"
    and "uint (bCBWCBLength cbw) - 1 \<noteq> int (sizeof (fields_of parser))"
    and "length ps = 15"
  shows "onCommand m cbw data lu = (Inl (MassStorageIllegalRequestError SCSI_ASC_NONE), lu) \<and>
    onCommand m' (cbw\<lparr>CBWCB := (CBWCB cbw)\<lparr>parameters := ps\<rparr>\<rparr>) data' lu =
      onCommand m cbw data lu"
proof -
  let ?cbw' = "cbw\<lparr>CBWCB := (CBWCB cbw)\<lparr>parameters := ps\<rparr>\<rparr>"
  have "map_of PARSERS (command (CBWCB ?cbw')) = Some parser" using assms(1) by simp
  moreover have "CBW_wellformed ?cbw'" using assms(4) by (simp add: CBW_wellformed_def)
  moreover have "uint (bCBWCBLength ?cbw') - 1 \<noteq> int (sizeof (fields_of parser))"
    using assms(3) by simp
  ultimately have "onCommand m' ?cbw' data' lu =
      (Inl (MassStorageIllegalRequestError SCSI_ASC_NONE), lu)"
    by (rule onCommand_size_mismatch)
  then show ?thesis using onCommand_size_mismatch [OF assms(1-3), of m data lu] by simp
qed

theorem onCommand_rejects_wrong_CDB_length_witness:
  "onCommand MassStorageLogicalUnit_methods
     (host_CBW 1 0 0x80 0 SCSI_CMD_READ10 [0, 0, 0, 0, 0]) None MassStorageLogicalUnit_init =
     (Inl (MassStorageIllegalRequestError SCSI_ASC_NONE), MassStorageLogicalUnit_init) \<and>
   onCommand MassStorageLogicalUnit_methods
     ((host_CBW 1 0 0x80 0 SCSI_CMD_READ10 [0, 0, 0, 0, 0])
        \<lparr>CBWCB := (CBWCB (host_CBW 1 0 0x80 0 SCSI_CMD_READ10 [0, 0, 0, 0, 0]))
           \<lparr>parameters := [0, 0, 0, 0, 10, 0, 0, 1, 0, 0, 0, 0, 0, 0, 0]\<rparr>\<rparr>)
     (Some []) MassStorageLogicalUnit_init =
   onCommand MassStorageLogicalUnit_methods
     (host_CBW 1 0 0x80 0 SCSI_CMD_READ10 [0, 0, 0, 0, 0]) None MassStorageLogicalUnit_init"
  using onCommand_rejects_wrong_CDB_length
    [of "host_CBW 1 0 0x80 0 SCSI_CMD_READ10 [0, 0, 0, 0, 0]" ClassIO10
       "[0, 0, 0, 0, 10, 0, 0, 1, 0, 0, 0, 0, 0, 0, 0]"
       MassStorageLogicalUnit_methods None MassStorageLogicalUnit_init
       MassStorageLogicalUnit_methods "Some []"]
  by (simp add: host_CBW_def PARSERS_lookup CBW_wellformed_def sizeof_params_fields)

text \<open>
  Claim C8. For every opcode outside the parser table, \<^verbatim>\<open>parseable\<close> is false and
  \<^verbatim>\<open>onCommand\<close> raises IllegalRequest, whatever \<^verbatim>\<open>cdb_size\<close> says of the opcode; opcode
  \<^verbatim>\<open>0x23\<close>, with length class 10, is one of them.
\<close>

theorem unknown_opcode_IllegalRequest:
  assumes "command (CBWCB cbw) \<notin> {0x00, 0x03, 0x12, 0x1a, 0x1b, 0x1e, 0x25, 0x28, 0x2a, 0x2f, 0x5a}"
  shows "\<not> parseable (CBWCB cbw) \<and>
    onCommand m cbw data lu = (Inl (MassStorageIllegalRequestError SCSI_ASC_NONE), lu)"
  using assms by (simp add: parseable_opcodes onCommand_def raise_exc_def)

theorem unknown_opcode_IllegalRequest_witness:
  "cdb_size (CBWCB (host_CBW 1 0 0x80 0 SCSI_CMD_READ_FORMAT_CAPACITY [0, 0, 0, 0, 0, 0, 0, 0, 0])) = 10 \<and>
   \<not> parseable (CBWCB (host_CBW 1 0 0x80 0 SCSI_CMD_READ_FORMAT_CAPACITY [0, 0, 0, 0, 0, 0, 0, 0, 0])) \<and>
   onCommand MassStorageLogicalUnit_methods
     (host_CBW 1 0 0x80 0 SCSI_CMD_READ_FORMAT_CAPACITY [0, 0, 0, 0, 0, 0, 0, 0, 0]) None
     MassStorageLogicalUnit_init =
     (Inl (MassStorageIllegalRequestError SCSI_ASC_NONE), MassStorageLogicalUnit_init)"
  using unknown_opcode_IllegalRequest
    [of "host_CBW 1 0 0x80 0 SCSI_CMD_READ_FORMAT_CAPACITY [0, 0, 0, 0, 0, 0, 0, 0, 0]"
       MassStorageLogicalUnit_methods None MassStorageLogicalUnit_init]
  by (simp add: host_CBW_def SCSI_CMD_READ_FORMAT_CAPACITY_def cdb_size_def)

section \<open>Request Sense\<close>

lemma init_single_unit:
  "MassStorageFunction_init [MassStorageLogicalUnit_class] = Inr single_unit_function"
  by (simp add: MassStorageFunction_init_def MassStorageLogicalUnit_class_def
      single_unit_function_def)

text \<open>
  Reading the sense of a unit whose \<^verbatim>\<open>sense\<close> attribute was never assigned raises
  \<^verbatim>\<open>AttributeError\<close>; \<^verbatim>\<open>_processCBW\<close> answers it as an unknown error.
\<close>

lemma RequestSense_unset_sense:
  assumes "command (CBWCB cbw) = SCSI_CMD_REQUEST_SENSE"
    and "CBW_wellformed cbw"
    and "bCBWCBLength cbw = 6"
    and "sense lu = Unset"
  shows "onCommand m cbw data lu = (Inl AttributeError, lu)"
proof -
  have "map_of PARSERS (command (CBWCB cbw)) = Some ClassRequestSense"
    using assms(1) by (simp add: PARSERS_lookup)
  moreover have "uint (bCBWCBLength cbw) - 1 = int (sizeof (fields_of ClassRequestSense))"
    using assms(3) by (simp add: sizeof_params_fields)
  ultimately show ?thesis
    using assms(2,4) by (simp add: onCommand_dispatch raise_exc_def)
qed

text \<open>
  Claim C1, as the code has it. For a Request Sense command whose declared CDB length is
  6, on a logical unit whose \<^verbatim>\<open>sense\<close> attribute has been assigned (by
  \<^verbatim>\<open>MassStorageLogicalUnit.__init__\<close> or by an earlier error), \<^verbatim>\<open>onCommand\<close> returns the
  unit's stored sense if one is present and a synthesized No Sense response if the
  attribute is \<^verbatim>\<open>None\<close>, and leaves the stored sense where it is: a Request Sense that
  follows with no error in between returns the same response again.
\<close>

theorem RequestSense_keeps_sense:
  assumes "command (CBWCB cbw) = SCSI_CMD_REQUEST_SENSE"
    and "CBW_wellformed cbw"
    and "bCBWCBLength cbw = 6"
    and "sense lu = Attr stored"
  shows "onCommand m cbw data lu =
      (Inr (Some (RequestSenseResponse
         (case stored of
            Some s \<Rightarrow> s
          | None \<Rightarrow> SCSIResponseRequestSense_simple SCSI_SENSE_KEY_NO_SENSE SCSI_ASC_NONE))),
       lu) \<and>
    onCommand m cbw data (snd (onCommand m cbw data lu)) = onCommand m cbw data lu"
proof -
  have "map_of PARSERS (command (CBWCB cbw)) = Some ClassRequestSense"
    using assms(1) by (simp add: PARSERS_lookup)
  moreover have "uint (bCBWCBLength cbw) - 1 = int (sizeof (fields_of ClassRequestSense))"
    using assms(3) by (simp add: sizeof_params_fields)
  ultimately have "onCommand m cbw data lu =
      (Inr (Some (RequestSenseResponse
         (case stored of
            Some s \<Rightarrow> s
          | None \<Rightarrow> SCSIResponseRequestSense_simple SCSI_SENSE_KEY_NO_SENSE SCSI_ASC_NONE))),
       lu)"
    using assms(2,4) by (simp add: onCommand_dispatch return_value_def split: option.split)
  then show ?thesis by simp
qed

theorem RequestSense_keeps_sense_witness:
  "onCommand MassStorageLogicalUnit_methods
     (host_CBW 2 18 0x80 0 SCSI_CMD_REQUEST_SENSE [0, 0, 0, 18, 0]) None
     \<lparr>sense = Attr (Some (SCSIResponseRequestSense_simple SCSI_SENSE_KEY_NOT_READY
        SCSI_ASC_NONE)), backend = ()\<rparr> =
   (Inr (Some (RequestSenseResponse
      (SCSIResponseRequestSense_simple SCSI_SENSE_KEY_NOT_READY SCSI_ASC_NONE))),
    \<lparr>sense = Attr (Some (SCSIResponseRequestSense_simple SCSI_SENSE_KEY_NOT_READY
        SCSI_ASC_NONE)), backend = ()\<rparr>) \<and>
   onCommand MassStorageLogicalUnit_methods
     (host_CBW 2 18 0x80 0 SCSI_CMD_REQUEST_SENSE [0, 0, 0, 18, 0]) None
     MassStorageLogicalUnit_init =
   (Inr (Some (RequestSenseResponse
      (SCSIResponseRequestSense_simple SCSI_SENSE_KEY_NO_SENSE SCSI_ASC_NONE))),
    MassStorageLogicalUnit_init)"
  using RequestSense_keeps_sense
    [of "host_CBW 2 18 0x80 0 SCSI_CMD_REQUEST_SENSE [0, 0, 0, 18, 0]"
       "\<lparr>sense = Attr (Some (SCSIResponseRequestSense_simple SCSI_SENSE_KEY_NOT_READY
          SCSI_ASC_NONE)), backend = ()\<rparr>"
       "Some (SCSIResponseRequestSense_simple SCSI_SENSE_KEY_NOT_READY SCSI_ASC_NONE)"
       MassStorageLogicalUnit_methods None]
    RequestSense_keeps_sense
    [of "host_CBW 2 18 0x80 0 SCSI_CMD_REQUEST_SENSE [0, 0, 0, 18, 0]"
       MassStorageLogicalUnit_init None MassStorageLogicalUnit_methods None]
  by (simp add: host_CBW_def CBW_wellformed_def MassStorageLogicalUnit_init_def)

text \<open>
  The read does not consume the sense. A function with one base-class unit receives a
  command with the unknown opcode \<^verbatim>\<open>0x23\<close> and then two Request Sense commands: both
  data payloads are the Illegal Request sense of the first command, and the second is
  not a No Sense response.
\<close>

theorem RequestSense_twice_counterexample:
  "data_payloads (writes (inep (run
     [OutComplete (Some (bytes_of_CBW
        (host_CBW 1 0 0 0 SCSI_CMD_READ_FORMAT_CAPACITY [0, 0, 0, 0, 0, 0, 0, 0, 0]))) 0,
      OutComplete (Some (bytes_of_CBW
        (host_CBW 2 18 0x80 0 SCSI_CMD_REQUEST_SENSE [0, 0, 0, 18, 0]))) 0,
      OutComplete (Some (bytes_of_CBW
        (host_CBW 3 18 0x80 0 SCSI_CMD_REQUEST_SENSE [0, 0, 0, 18, 0]))) 0]
     single_unit_function))) =
   [RequestSenseResponse
      (SCSIResponseRequestSense_simple SCSI_SENSE_KEY_ILLEGAL_REQUEST SCSI_ASC_NONE),
    RequestSenseResponse
      (SCSIResponseRequestSense_simple SCSI_SENSE_KEY_ILLEGAL_REQUEST SCSI_ASC_NONE)] \<and>
   SCSIResponseRequestSense_simple SCSI_SENSE_KEY_ILLEGAL_REQUEST SCSI_ASC_NONE \<noteq>
     SCSIResponseRequestSense_simple SCSI_SENSE_KEY_NO_SENSE SCSI_ASC_NONE"
  by code_simp

section \<open>Mode Sense\<close>

text \<open>
  Mode Sense(6) returns the four-byte header with a mode data length of 3, the bytes of
  the header that follow the length field, and a block descriptor length of 0.
\<close>

lemma ModeSense6_header_only:
  assumes "command (CBWCB cbw) = SCSI_CMD_MODE_SENSE6"
    and "CBW_wellformed cbw"
    and "bCBWCBLength cbw = 6"
  shows "onCommand m cbw data lu =
      (Inr (Some (ModeSense6Response
         \<lparr>mode_data_length = 3, medium_type = 0, device_specific_params = 0,
          block_descriptor_length = 0\<rparr>)), lu)"
proof -
  have "map_of PARSERS (command (CBWCB cbw)) = Some ClassModeSense6"
    using assms(1) by (simp add: PARSERS_lookup)
  moreover have "uint (bCBWCBLength cbw) - 1 = int (sizeof (fields_of ClassModeSense6))"
    using assms(3) by (simp add: sizeof_params_fields)
  ultimately show ?thesis
    using assms(2)
    by (simp add: onCommand_dispatch return_value_def sizeof_def field_size_def
        SCSIResponseModeSense6Header_fields_def)
qed

text \<open>
  \<^verbatim>\<open>SCSIParametersModeSense10\<close> is in the parser table, but no branch of the
  \<^verbatim>\<open>isinstance\<close> chain names it: a Mode Sense(10) command reaches the final
  \<^verbatim>\<open>raise\<close> whatever CDB length it declares.
\<close>

lemma ModeSense10_IllegalRequest:
  assumes "command (CBWCB cbw) = SCSI_CMD_MODE_SENSE10"
    and "CBW_wellformed cbw"
  shows "onCommand m cbw data lu = (Inl (MassStorageIllegalRequestError SCSI_ASC_NONE), lu)"
proof -
  have p: "map_of PARSERS (command (CBWCB cbw)) = Some ClassModeSense10"
    using assms(1) by (simp add: PARSERS_lookup)
  show ?thesis
  proof (cases "uint (bCBWCBLength cbw) - 1 = int (sizeof (fields_of ClassModeSense10))")
    case True
    with p assms(2) show ?thesis
      by (simp add: onCommand_dispatch raise_exc_def)
  next
    case False
    with p assms(2) show ?thesis
      by (rule onCommand_size_mismatch)
  qed
qed

text \<open>
  Claim C2 says that Mode Sense(6) and Mode Sense(10) commands of matching CDB length
  return a header-only response and raise nothing. The code at a Mode Sense(10) command
  with the matching CDB length 10: \<^verbatim>\<open>onCommand\<close> raises IllegalRequest.
\<close>

theorem ModeSense10_raises_IllegalRequest:
  "map_of PARSERS SCSI_CMD_MODE_SENSE10 = Some ClassModeSense10 \<and>
   int (sizeof (fields_of ClassModeSense10)) =
     uint (bCBWCBLength (host_CBW 1 8 0x80 0 SCSI_CMD_MODE_SENSE10 [0, 0x3f, 0, 0, 0, 0, 0, 8, 0])) - 1 \<and>
   onCommand MassStorageLogicalUnit_methods
     (host_CBW 1 8 0x80 0 SCSI_CMD_MODE_SENSE10 [0, 0x3f, 0, 0, 0, 0, 0, 8, 0]) None
     MassStorageLogicalUnit_init =
   (Inl (MassStorageIllegalRequestError SCSI_ASC_NONE), MassStorageLogicalUnit_init)"
  using ModeSense10_IllegalRequest
    [of "host_CBW 1 8 0x80 0 SCSI_CMD_MODE_SENSE10 [0, 0x3f, 0, 0, 0, 0, 0, 8, 0]"
       MassStorageLogicalUnit_methods None MassStorageLogicalUnit_init]
  by (simp add: host_CBW_def CBW_wellformed_def PARSERS_lookup sizeof_params_fields)

section \<open>Inquiry\<close>

text \<open>
  Claim C4, as the code has it. An Inquiry command of CDB length 6 handled by the
  default logical unit returns, for an allocation length of 36 or more, a structure of 36
  bytes whose header reports the peripheral type Direct-Access with the removable bit
  set, and whose vendor, product and revision are \<^verbatim>\<open>PyFFS\<close>, \<^verbatim>\<open>USBMS\<close> and \<^verbatim>\<open>0000\<close>
  (zero padded); for a smaller allocation length it raises IllegalRequest with the
  additional sense code Invalid Field in CDB.
\<close>

theorem Inquiry_default_unit:
  assumes "cast (CBWCB cbw) = Inr (Inquiry p)"
    and "bCBWCBLength cbw = 6"
  shows "(if 36 \<le> uint (inq_allocation_length p) then
      (case onCommand MassStorageLogicalUnit_methods cbw data lu of
         (Inr (Some (InquiryResponse r)), lu') \<Rightarrow>
           lu' = lu \<and>
           length (bytes_of_SCSIResponseInquiry r) = 36 \<and>
           uint (peripheral_type (inquiry_header r)) = SCSI_INQUIRY_PERIF_TYPE_DIRECT \<and>
           uint (field_1 (inquiry_header r)) AND SCSI_INQUIRY_HEADER_F1_RMB =
             SCSI_INQUIRY_HEADER_F1_RMB \<and>
           vendor_id (features r) = bytes_literal ''PyFFS'' @ replicate 3 0 \<and>
           product_id (features r) = bytes_literal ''USBMS'' @ replicate 11 0 \<and>
           product_revision (features r) = bytes_literal ''0000''
       | _ \<Rightarrow> False)
    else
      onCommand MassStorageLogicalUnit_methods cbw data lu =
        (Inl (MassStorageIllegalRequestError SCSI_ASC_INVALID_FIELD_IN_CDB), lu))"
proof -
  from assms(1) have par: "parseable (CBWCB cbw)"
    by (auto simp add: cast_def parseable_iff split: option.splits)
  have sz: "int (sizeof_params (Inquiry p)) = uint (bCBWCBLength cbw) - 1"
    using assms(2) by (simp add: sizeof_params_def sizeof_params_fields)
  have run: "onCommand MassStorageLogicalUnit_methods cbw data lu =
      then_do (MassStorageLogicalUnit_onInquiry (uint (inq_allocation_length p)))
        (\<lambda>r. return_value (Some r)) lu"
    using par sz assms(1)
    by (simp add: onCommand_def MassStorageLogicalUnit_methods_def)
  have sizes: "sizeof SCSIResponseInquiry_fields = 36"
    by (simp add: sizeof_def SCSIResponseInquiry_fields_def
        SCSIResponseInquiryHeader_fields_def SCSIResponseInquiryFeatures_fields_def)
  show ?thesis
    unfolding run
    by (simp add: MassStorageLogicalUnit_onInquiry_def sizes then_do_def return_value_def
        raise_exc_def SCSIResponseInquiry_simple_def field_size_def
        SCSIResponseInquiryFeatures_fields_def bytes_literal_def memmove_def
        bytes_of_SCSIResponseInquiry_def put_be16_def
        SCSI_INQUIRY_PERIF_QUALIFIER_LOADED_def SCSI_INQUIRY_PERIF_TYPE_DIRECT_def
        SCSI_INQUIRY_HEADER_F1_RMB_def)
qed

theorem Inquiry_default_unit_witness:
  "(case onCommand MassStorageLogicalUnit_methods
           (host_CBW 1 36 0x80 0 SCSI_CMD_INQUIRY [0, 0, 0, 36, 0]) None
           MassStorageLogicalUnit_init of
         (Inr (Some (InquiryResponse r)), lu') \<Rightarrow>
           lu' = MassStorageLogicalUnit_init \<and>
           length (bytes_of_SCSIResponseInquiry r) = 36 \<and>
           uint (peripheral_type (inquiry_header r)) = SCSI_INQUIRY_PERIF_TYPE_DIRECT \<and>
           uint (field_1 (inquiry_header r)) AND SCSI_INQUIRY_HEADER_F1_RMB =
             SCSI_INQUIRY_HEADER_F1_RMB \<and>
           vendor_id (features r) = bytes_literal ''PyFFS'' @ replicate 3 0 \<and>
           product_id (features r) = bytes_literal ''USBMS'' @ replicate 11 0 \<and>
           product_revision (features r) = bytes_literal ''0000''
       | _ \<Rightarrow> False) \<and>
   onCommand MassStorageLogicalUnit_methods
     (host_CBW 1 35 0x80 0 SCSI_CMD_INQUIRY [0, 0, 0, 35, 0]) None MassStorageLogicalUnit_init =
   (Inl (MassStorageIllegalRequestError SCSI_ASC_INVALID_FIELD_IN_CDB),
    MassStorageLogicalUnit_init)"
proof -
  have c36: "cast (CBWCB (host_CBW 1 36 0x80 0 SCSI_CMD_INQUIRY [0, 0, 0, 36, 0])) =
      Inr (Inquiry \<lparr>inq_flags = 0, inq_page_code = 0, inq_allocation_length = 36,
        inq_control = 0\<rparr>)"
    by code_simp
  have c35: "cast (CBWCB (host_CBW 1 35 0x80 0 SCSI_CMD_INQUIRY [0, 0, 0, 35, 0])) =
      Inr (Inquiry \<lparr>inq_flags = 0, inq_page_code = 0, inq_allocation_length = 35,
        inq_control = 0\<rparr>)"
    by code_simp
  have l36: "bCBWCBLength (host_CBW 1 36 0x80 0 SCSI_CMD_INQUIRY [0, 0, 0, 36, 0]) = 6"
    and l35: "bCBWCBLength (host_CBW 1 35 0x80 0 SCSI_CMD_INQUIRY [0, 0, 0, 35, 0]) = 6"
    by (simp_all add: host_CBW_def)
  show ?thesis
    using Inquiry_default_unit [OF c36 l36, where data = None and lu = MassStorageLogicalUnit_init]
      Inquiry_default_unit [OF c35 l35, where data = None and lu = MassStorageLogicalUnit_init]
    by simp
qed

text \<open>
  The structure returned for the allocation length 36 has 36 bytes, not 40.
\<close>

theorem Inquiry_40_bytes_counterexample:
  "(case fst (onCommand MassStorageLogicalUnit_methods
           (host_CBW 1 36 0x80 0 SCSI_CMD_INQUIRY [0, 0, 0, 36, 0]) None
           MassStorageLogicalUnit_init) of
      Inr (Some r) \<Rightarrow> length (bytes_of_response r) = 36 \<and> length (bytes_of_response r) \<noteq> 40
    | _ \<Rightarrow> False)"
  by code_simp

section \<open>The transport\<close>

lemma halt_both_simps:
  "halted (inep (halt_both s))" "halted (outep (halt_both s))"
  "writes (inep (halt_both s)) = writes (inep s)"
  "writes (outep (halt_both s)) = writes (outep s)"
  "receiving_length (halt_both s) = receiving_length s"
  "received_data (halt_both s) = received_data s"
  "current_cbw (halt_both s) = current_cbw s"
  "logical_units (halt_both s) = logical_units s"
  by (simp_all add: halt_both_def ep_halt_def)

text \<open>
  Claim C6. For every OUT-endpoint packet that arrives while the function is idle
  (\<^verbatim>\<open>_receiving_length == 0\<close>) and whose CBW signature is not \<^verbatim>\<open>0x43425355\<close>,
  \<^verbatim>\<open>_onOutEndpointComplete\<close> halts both bulk endpoints, writes nothing on the IN endpoint
  (no CSW), and leaves the function idle. The witness is the signature \<^verbatim>\<open>0xdeadbeef\<close>.
\<close>

theorem bad_signature_halts:
  assumes "receiving_length s = 0"
    and "CBW_from_buffer data = Inr cbw"
    and "uint (dCBWSignature cbw) \<noteq> USBMS_CBW_MAGIC"
  shows "onOutEndpointComplete data status s =
      ((if status = 0 then Inr () else Inl (IOError (- status))), halt_both s) \<and>
    halted (inep (snd (onOutEndpointComplete data status s))) \<and>
    halted (outep (snd (onOutEndpointComplete data status s))) \<and>
    writes (inep (snd (onOutEndpointComplete data status s))) = writes (inep s) \<and>
    receiving_length (snd (onOutEndpointComplete data status s)) = 0"
proof -
  have "onOutEndpointComplete data status s =
      ((if status = 0 then Inr () else Inl (IOError (- status))), halt_both s)"
    using assms
    by (simp add: onOutEndpointComplete_def onOutEndpointComplete_try_def halt_both_def)
  then show ?thesis using assms(1) by (simp add: halt_both_simps)
qed

theorem bad_signature_halts_witness:
  "halted (inep (snd (onOutEndpointComplete
      (Some (bytes_of_CBW ((host_CBW 1 0 0x80 0 SCSI_CMD_TEST_UNIT_READY [0, 0, 0, 0, 0])
         \<lparr>dCBWSignature := 0xdeadbeef\<rparr>))) 0 single_unit_function))) \<and>
   halted (outep (snd (onOutEndpointComplete
      (Some (bytes_of_CBW ((host_CBW 1 0 0x80 0 SCSI_CMD_TEST_UNIT_READY [0, 0, 0, 0, 0])
         \<lparr>dCBWSignature := 0xdeadbeef\<rparr>))) 0 single_unit_function))) \<and>
   writes (inep (snd (onOutEndpointComplete
      (Some (bytes_of_CBW ((host_CBW 1 0 0x80 0 SCSI_CMD_TEST_UNIT_READY [0, 0, 0, 0, 0])
         \<lparr>dCBWSignature := 0xdeadbeef\<rparr>))) 0 single_unit_function))) = [] \<and>
   receiving_length (snd (onOutEndpointComplete
      (Some (bytes_of_CBW ((host_CBW 1 0 0x80 0 SCSI_CMD_TEST_UNIT_READY [0, 0, 0, 0, 0])
         \<lparr>dCBWSignature := 0xdeadbeef\<rparr>))) 0 single_unit_function)) = 0"
proof -
  let ?cbw = "(host_CBW 1 0 0x80 0 SCSI_CMD_TEST_UNIT_READY [0, 0, 0, 0, 0])
         \<lparr>dCBWSignature := 0xdeadbeef\<rparr>"
  have 1: "receiving_length single_unit_function = 0"
    by (simp add: single_unit_function_def)
  have 2: "CBW_from_buffer (Some (bytes_of_CBW ?cbw)) = Inr ?cbw"
    by code_simp
  have 3: "uint (dCBWSignature ?cbw) \<noteq> USBMS_CBW_MAGIC"
    by (simp add: USBMS_CBW_MAGIC_def)
  have 4: "writes (inep single_unit_function) = []"
    by (simp add: single_unit_function_def Endpoint_new_def)
  show ?thesis
    using bad_signature_halts [OF 1 2 3, of 0] 4 1 by (simp add: halt_both_simps)
qed

lemma inep_write_simps:
  "writes (inep (inep_write x s)) = writes (inep s) @ [x]"
  "halted (inep (inep_write x s)) = halted (inep s)"
  "outep (inep_write x s) = outep s"
  "receiving_length (inep_write x s) = receiving_length s"
  "received_data (inep_write x s) = received_data s"
  "current_cbw (inep_write x s) = current_cbw s"
  "logical_units (inep_write x s) = logical_units s"
  by (simp_all add: inep_write_def ep_write_def)

lemma set_sense_simps:
  "inep (set_sense i sn s) = inep s"
  "outep (set_sense i sn s) = outep s"
  "receiving_length (set_sense i sn s) = receiving_length s"
  "received_data (set_sense i sn s) = received_data s"
  "current_cbw (set_sense i sn s) = current_cbw s"
  "length (logical_units (set_sense i sn s)) = length (logical_units s)"
  by (simp_all add: set_sense_def)

text \<open>The status that the CSW of a command cycle carries, and the payload before it.\<close>

lemma processCBW_writes:
  assumes "unat (bCBWLUN cbw) < length (logical_units s)"
    and "logical_units s ! unat (bCBWLUN cbw) = (m, lu)"
  shows "fst (processCBW cbw data s) = Inr () \<and>
    writes (inep (snd (processCBW cbw data s))) =
      writes (inep s)
        @ (case fst (onCommand m cbw data lu) of
             Inr (Some r) \<Rightarrow> [WriteResponse r]
           | _ \<Rightarrow> [])
        @ [WriteCSW (CSW_simple (uint (dCBWTag cbw))
             (case fst (onCommand m cbw data lu) of
                Inr _ \<Rightarrow> USBMS_CSW_STATUS_GOOD
              | Inl (MassStorageError csw_status sn) \<Rightarrow> csw_status
              | Inl _ \<Rightarrow> USBMS_CSW_STATUS_PHASE_ERROR) 0)] \<and>
    halted (inep (snd (processCBW cbw data s))) = halted (inep s) \<and>
    outep (snd (processCBW cbw data s)) = outep s \<and>
    receiving_length (snd (processCBW cbw data s)) = receiving_length s"
proof (cases "onCommand m cbw data lu")
  case (Pair res lu')
  show ?thesis
  proof (cases res)
    case (Inl err)
    with Pair assms show ?thesis
      by (cases err) (simp_all add: processCBW_def Let_def inep_write_simps set_sense_simps)
  next
    case (Inr response_data)
    with Pair assms show ?thesis
      by (cases response_data) (simp_all add: processCBW_def Let_def inep_write_simps)
  qed
qed

lemma status_wrappers_append:
  "status_wrappers (xs @ ys) = status_wrappers xs @ status_wrappers ys"
  by (induction xs rule: status_wrappers.induct) simp_all

lemma data_payloads_append:
  "data_payloads (xs @ ys) = data_payloads xs @ data_payloads ys"
  by (induction xs rule: data_payloads.induct) simp_all

text \<open>
  Claim C3, as the code has it. For every CBW with the right signature, a data transfer
  length of 0 and a LUN that addresses one of the function's logical units, the command
  cycle writes exactly one CSW on the IN endpoint, with the CBW's tag, as its last
  write; before it, it writes the response of the unit's \<^verbatim>\<open>onCommand\<close> as a data payload
  when \<^verbatim>\<open>onCommand\<close> returns one, and nothing when it returns \<^verbatim>\<open>None\<close> or raises.
\<close>

theorem zero_length_cycle:
  assumes "receiving_length s = 0"
    and "CBW_from_buffer data = Inr cbw"
    and "uint (dCBWSignature cbw) = USBMS_CBW_MAGIC"
    and "dCBWDataTransferLength cbw = 0"
    and "unat (bCBWLUN cbw) < length (logical_units s)"
    and "logical_units s ! unat (bCBWLUN cbw) = (m, lu)"
  shows "fst (onOutEndpointComplete data 0 s) = Inr () \<and>
    writes (inep (snd (onOutEndpointComplete data 0 s))) =
      writes (inep s)
        @ (case fst (onCommand m cbw None lu) of
             Inr (Some r) \<Rightarrow> [WriteResponse r]
           | _ \<Rightarrow> [])
        @ [WriteCSW (CSW_simple (uint (dCBWTag cbw))
             (case fst (onCommand m cbw None lu) of
                Inr _ \<Rightarrow> USBMS_CSW_STATUS_GOOD
              | Inl (MassStorageError csw_status sn) \<Rightarrow> csw_status
              | Inl _ \<Rightarrow> USBMS_CSW_STATUS_PHASE_ERROR) 0)] \<and>
    length (status_wrappers
      (drop (length (writes (inep s))) (writes (inep (snd (onOutEndpointComplete data 0 s)))))) = 1 \<and>
    data_payloads
      (drop (length (writes (inep s))) (writes (inep (snd (onOutEndpointComplete data 0 s))))) =
      (case fst (onCommand m cbw None lu) of Inr (Some r) \<Rightarrow> [r] | _ \<Rightarrow> []) \<and>
    halted (inep (snd (onOutEndpointComplete data 0 s))) = halted (inep s) \<and>
    halted (outep (snd (onOutEndpointComplete data 0 s))) = halted (outep s) \<and>
    receiving_length (snd (onOutEndpointComplete data 0 s)) = 0"
proof -
  have body: "onOutEndpointComplete_try data s = processCBW cbw None s"
    using assms(1-4) by (simp add: onOutEndpointComplete_try_def)
  note p = processCBW_writes [OF assms(5,6), of None]
  have out: "onOutEndpointComplete data 0 s = (Inr (), snd (processCBW cbw None s))"
    using p by (cases "processCBW cbw None s") (auto simp add: onOutEndpointComplete_def body)
  have pay: "data_payloads
      (case fst (onCommand m cbw None lu) of Inr (Some r) \<Rightarrow> [WriteResponse r] | _ \<Rightarrow> []) =
      (case fst (onCommand m cbw None lu) of Inr (Some r) \<Rightarrow> [r] | _ \<Rightarrow> [])"
    and st: "status_wrappers
      (case fst (onCommand m cbw None lu) of Inr (Some r) \<Rightarrow> [WriteResponse r] | _ \<Rightarrow> []) = []"
    by (simp_all split: sum.split option.split)
  show ?thesis
    unfolding out using p assms(1)
    by (simp add: status_wrappers_append data_payloads_append pay st)
qed

text \<open>
  A Request Sense command in a CBW with a data transfer length of 0: the 18 bytes of the
  sense response are written on the IN endpoint before the CSW.
\<close>

theorem zero_length_cycle_counterexample:
  "dCBWDataTransferLength (host_CBW 7 0 0x80 0 SCSI_CMD_REQUEST_SENSE [0, 0, 0, 18, 0]) = 0 \<and>
   writes (inep (snd (onOutEndpointComplete
     (Some (bytes_of_CBW (host_CBW 7 0 0x80 0 SCSI_CMD_REQUEST_SENSE [0, 0, 0, 18, 0]))) 0
     single_unit_function))) =
   [WriteResponse (RequestSenseResponse
      (SCSIResponseRequestSense_simple SCSI_SENSE_KEY_NO_SENSE SCSI_ASC_NONE)),
    WriteCSW (CSW_simple 7 USBMS_CSW_STATUS_GOOD 0)] \<and>
   length (bytes_of_response (RequestSenseResponse
      (SCSIResponseRequestSense_simple SCSI_SENSE_KEY_NO_SENSE SCSI_ASC_NONE))) = 18"
  by code_simp

text \<open>
  Test Unit Ready returns nothing and a short Inquiry raises: one CSW each, no payload.
\<close>

theorem zero_length_cycle_witness:
  "writes (inep (snd (onOutEndpointComplete
     (Some (bytes_of_CBW (host_CBW 7 0 0x80 0 SCSI_CMD_TEST_UNIT_READY [0, 0, 0, 0, 0]))) 0
     single_unit_function))) =
   [WriteCSW (CSW_simple 7 USBMS_CSW_STATUS_GOOD 0)] \<and>
   writes (inep (snd (onOutEndpointComplete
     (Some (bytes_of_CBW (host_CBW 8 0 0x80 0 SCSI_CMD_INQUIRY [0, 0, 0, 35, 0]))) 0
     single_unit_function))) =
   [WriteCSW (CSW_simple 8 USBMS_CSW_STATUS_BAD 0)]"
proof -
  let ?c7 = "host_CBW 7 0 0x80 0 SCSI_CMD_TEST_UNIT_READY [0, 0, 0, 0, 0]"
  let ?c8 = "host_CBW 8 0 0x80 0 SCSI_CMD_INQUIRY [0, 0, 0, 35, 0]"
  have r: "receiving_length single_unit_function = 0"
    and w: "writes (inep single_unit_function) = []"
    and l: "logical_units single_unit_function ! 0 =
      (MassStorageLogicalUnit_methods, MassStorageLogicalUnit_init)"
    and n: "length (logical_units single_unit_function) = 1"
    by (simp_all add: single_unit_function_def Endpoint_new_def)
  have b7: "CBW_from_buffer (Some (bytes_of_CBW ?c7)) = Inr ?c7"
    and b8: "CBW_from_buffer (Some (bytes_of_CBW ?c8)) = Inr ?c8"
    by code_simp+
  have f7: "uint (dCBWSignature ?c7) = USBMS_CBW_MAGIC" "dCBWDataTransferLength ?c7 = 0"
      "unat (bCBWLUN ?c7) = 0" "uint (dCBWTag ?c7) = 7"
    and f8: "uint (dCBWSignature ?c8) = USBMS_CBW_MAGIC" "dCBWDataTransferLength ?c8 = 0"
      "unat (bCBWLUN ?c8) = 0" "uint (dCBWTag ?c8) = 8"
    by (simp_all add: host_CBW_def USBMS_CBW_MAGIC_def)
  have o7: "fst (onCommand MassStorageLogicalUnit_methods ?c7 None MassStorageLogicalUnit_init)
      = Inr None"
    by code_simp
  have o8: "fst (onCommand MassStorageLogicalUnit_methods ?c8 None MassStorageLogicalUnit_init)
      = Inl (MassStorageIllegalRequestError SCSI_ASC_INVALID_FIELD_IN_CDB)"
    by code_simp
  have "writes (inep (snd (onOutEndpointComplete (Some (bytes_of_CBW ?c7)) 0
      single_unit_function))) = [WriteCSW (CSW_simple 7 USBMS_CSW_STATUS_GOOD 0)]"
    using zero_length_cycle [OF r b7 f7(1,2), of MassStorageLogicalUnit_methods
        MassStorageLogicalUnit_init] f7(3,4) l n w o7
    by simp
  moreover have "writes (inep (snd (onOutEndpointComplete (Some (bytes_of_CBW ?c8)) 0
      single_unit_function))) = [WriteCSW (CSW_simple 8 USBMS_CSW_STATUS_BAD 0)]"
    using zero_length_cycle [OF r b8 f8(1,2), of MassStorageLogicalUnit_methods
        MassStorageLogicalUnit_init] f8(3,4) l n w o8
    by (simp add: MassStorageIllegalRequestError_def)
  ultimately show ?thesis by simp
qed

section \<open>The function that the program registers\<close>

lemma get_function_instance_eq: "get_function_instance = Inr dummy_unit_function"
  by (simp add: get_function_instance_def MassStorageFunction_init_def
      MassStorageLogicalUnitDummy_class_def dummy_unit_function_def)

lemma sense_dummy_init: "sense MassStorageLogicalUnitDummy_init = Unset"
  by (simp add: MassStorageLogicalUnitDummy_init_def)

text \<open>
  A unit of \<^verbatim>\<open>MassStorageLogicalUnitDummy\<close> has no \<^verbatim>\<open>sense\<close> attribute until its first
  error. A Request Sense that is the first command of the registered function raises
  \<^verbatim>\<open>AttributeError\<close> in \<^verbatim>\<open>onCommand\<close>: the function writes a Phase Error CSW and no
  payload, and assigns \<^verbatim>\<open>None\<close> to the unit's sense.
\<close>

lemma dummy_unit_first_RequestSense:
  "fst (onOutEndpointComplete
     (Some (bytes_of_CBW (host_CBW 2 18 0x80 0 SCSI_CMD_REQUEST_SENSE [0, 0, 0, 18, 0]))) 0
     dummy_unit_function) = Inr () \<and>
   writes (inep (snd (onOutEndpointComplete
     (Some (bytes_of_CBW (host_CBW 2 18 0x80 0 SCSI_CMD_REQUEST_SENSE [0, 0, 0, 18, 0]))) 0
     dummy_unit_function))) =
     [WriteCSW (CSW_simple 2 USBMS_CSW_STATUS_PHASE_ERROR 0)] \<and>
   map (\<lambda>u. sense (snd u)) (logical_units (snd (onOutEndpointComplete
     (Some (bytes_of_CBW (host_CBW 2 18 0x80 0 SCSI_CMD_REQUEST_SENSE [0, 0, 0, 18, 0]))) 0
     dummy_unit_function))) = [Attr None]"
proof -
  let ?c = "host_CBW 2 18 0x80 0 SCSI_CMD_REQUEST_SENSE [0, 0, 0, 18, 0]"
  have b: "CBW_from_buffer (Some (bytes_of_CBW ?c)) = Inr ?c"
    by code_simp
  have f: "uint (dCBWSignature ?c) = USBMS_CBW_MAGIC"
    "bmCBWFlags ?c AND USBMS_CBW_DIR_MASK = USBMS_CBW_DIR_IN"
    "unat (bCBWLUN ?c) = 0" "uint (dCBWTag ?c) = 2"
    by (simp_all add: host_CBW_def USBMS_CBW_MAGIC_def USBMS_CBW_DIR_MASK_def
        USBMS_CBW_DIR_IN_def)
  have c: "command (CBWCB ?c) = SCSI_CMD_REQUEST_SENSE" "CBW_wellformed ?c"
    "bCBWCBLength ?c = 6"
    by (simp_all add: host_CBW_def CBW_wellformed_def)
  have oc: "onCommand MassStorageLogicalUnitDummy_methods ?c None
      MassStorageLogicalUnitDummy_init = (Inl AttributeError, MassStorageLogicalUnitDummy_init)"
    using c sense_dummy_init by (rule RequestSense_unset_sense)
  have body: "onOutEndpointComplete_try (Some (bytes_of_CBW ?c)) dummy_unit_function =
      processCBW ?c None dummy_unit_function"
    using f(1,2) by (simp add: onOutEndpointComplete_try_def b dummy_unit_function_def)
  have p: "processCBW ?c None dummy_unit_function =
      (Inr (),
       inep_write (WriteCSW (CSW_simple 2 USBMS_CSW_STATUS_PHASE_ERROR 0))
         (set_sense 0 None dummy_unit_function))"
    using f(3,4) oc
    by (simp add: processCBW_def Let_def dummy_unit_function_def)
  have out: "onOutEndpointComplete (Some (bytes_of_CBW ?c)) 0 dummy_unit_function =
      (Inr (),
       inep_write (WriteCSW (CSW_simple 2 USBMS_CSW_STATUS_PHASE_ERROR 0))
         (set_sense 0 None dummy_unit_function))"
    by (simp add: onOutEndpointComplete_def body p)
  show ?thesis
    unfolding out
    by (simp add: inep_write_def ep_write_def set_sense_def dummy_unit_function_def
        Endpoint_new_def)
qed

section \<open>The logical units of a function\<close>

lemma construct_all_length:
  "construct_all lucs = Inr lus \<Longrightarrow> length lus = length lucs"
  by (induction lucs arbitrary: lus) (auto split: sum.splits)

lemma reset_units_length: "length (snd (reset_units lus)) = length lus"
  by (induction lus rule: reset_units.induct) (auto split: prod.splits sum.splits)

lemma reset_length: "length (logical_units (snd (reset s))) = length (logical_units s)"
  using reset_units_length [of "logical_units s"]
  by (auto simp add: reset_def split: prod.splits sum.splits)

lemma processCBW_length:
  "length (logical_units (snd (processCBW cbw data s))) = length (logical_units s)"
  by (auto simp add: processCBW_def Let_def inep_write_simps set_sense_simps
      split: prod.splits sum.splits option.splits exc.splits)

lemma onOutEndpointComplete_try_length:
  "length (logical_units (snd (onOutEndpointComplete_try data s))) = length (logical_units s)"
  by (auto simp add: onOutEndpointComplete_try_def Let_def processCBW_length halt_both_simps
      split: sum.splits option.splits)

lemma onOutEndpointComplete_length:
  "length (logical_units (snd (onOutEndpointComplete data status s))) =
     length (logical_units s)"
  using onOutEndpointComplete_try_length [of data s]
  by (auto simp add: onOutEndpointComplete_def halt_both_simps split: prod.splits sum.splits)

lemma step_length: "length (logical_units (step e s)) = length (logical_units s)"
  by (cases e) (simp_all add: onOutEndpointComplete_length reset_length)

lemma run_length: "length (logical_units (run es s)) = length (logical_units s)"
  by (induction es arbitrary: s) (simp_all add: step_length)

text \<open>
  Claim C10. \<^verbatim>\<open>MassStorageFunction([])\<close> raises \<^verbatim>\<open>ValueError\<close>; a function that the
  constructor returns was built from a non-empty sequence and owns one logical unit for
  each of its elements, and \<^verbatim>\<open>getMaxLUN\<close> is non-negative on it, at once and after any
  sequence of endpoint completions and resets.
\<close>

theorem constructed_function_has_units:
  assumes "MassStorageFunction_init (lucs :: 'b lu_class list) = Inr s"
  shows "MassStorageFunction_init ([] :: 'b lu_class list) = Inl ValueError \<and>
    lucs \<noteq> [] \<and>
    length (logical_units s) = length lucs \<and>
    1 \<le> length (logical_units s) \<and>
    0 \<le> getMaxLUN s \<and>
    1 \<le> length (logical_units (run es s)) \<and>
    0 \<le> getMaxLUN (run es s)"
proof -
  from assms have ne: "lucs \<noteq> []"
    by (auto simp add: MassStorageFunction_init_def)
  from assms ne obtain lus where c: "construct_all lucs = Inr lus" and l: "logical_units s = lus"
    by (auto simp add: MassStorageFunction_init_def split: sum.splits)
  from construct_all_length [OF c] l have len: "length (logical_units s) = length lucs"
    by simp
  with ne have pos: "1 \<le> length (logical_units s)"
    by (cases lucs) simp_all
  show ?thesis
    using ne len pos
    by (simp add: MassStorageFunction_init_def getMaxLUN_def run_length)
qed

theorem constructed_function_has_units_witness:
  "MassStorageFunction_init ([] :: unit lu_class list) = Inl ValueError \<and>
   length (logical_units single_unit_function) = 1 \<and>
   getMaxLUN single_unit_function = 0 \<and>
   0 \<le> getMaxLUN (run
     [OutComplete (Some (bytes_of_CBW
        (host_CBW 1 0 0x80 0 SCSI_CMD_TEST_UNIT_READY [0, 0, 0, 0, 0]))) 0,
      BulkOnlyReset] single_unit_function)"
  using constructed_function_has_units [OF init_single_unit,
      of "[OutComplete (Some (bytes_of_CBW
        (host_CBW 1 0 0x80 0 SCSI_CMD_TEST_UNIT_READY [0, 0, 0, 0, 0]))) 0, BulkOnlyReset]"]
  by (simp add: getMaxLUN_def)

end
